theory Spec2Isabelle
  imports Main "HOL-Library.Word" "HOL-Library.Multiset"
begin

text \<open>
  A model of the document pipeline of the research portal: the storage layer
  (\<^verbatim>\<open>DatabaseStorage\<close>), the background run \<^verbatim>\<open>processDocument\<close> and the routes for
  deleting, reprocessing, searching and asking. The database is a record of tables, each
  function of the code takes the world and returns the new one, and what the code calls
  but does not contain (object store, PDF library, generation service, \<^verbatim>\<open>JSON.parse\<close>,
  the text predicates of PostgreSQL) is a parameter. Database and network failures other
  than those of the download, the PDF library and the generation service are not
  modelled, and a run is not interleaved with other requests.
\<close>

section \<open>JavaScript strings\<close>

text \<open>
  A JavaScript string is a sequence of UTF-16 code units: \<^verbatim>\<open>.length\<close> counts code
  units and \<^verbatim>\<open>.slice\<close> cuts between them. String literals of the source are ASCII
  and are written \<open>ascii ''...''\<close>.
\<close>

type_synonym code_unit = "16 word"
type_synonym jsstring = "code_unit list"

definition ascii :: "string \<Rightarrow> jsstring" where
  "ascii s = map of_char s"

text \<open>A string is truthy when it is not empty (\<^verbatim>\<open>if (s)\<close>, \<^verbatim>\<open>!s\<close>, \<^verbatim>\<open>s || t\<close>).\<close>

definition truthy :: "jsstring \<Rightarrow> bool" where
  "truthy s \<longleftrightarrow> s \<noteq> []"

text \<open>
  \<^verbatim>\<open>String.prototype.trim\<close> strips WhiteSpace and LineTerminator code points
  (ECMA-262) from both ends; all of them are single code units.
\<close>

definition isWhiteSpace :: "code_unit \<Rightarrow> bool" where
  "isWhiteSpace c \<longleftrightarrow>
     c = 0x0009 \<or> c = 0x000A \<or> c = 0x000B \<or> c = 0x000C \<or> c = 0x000D \<or> c = 0x0020 \<or>
     c = 0x00A0 \<or> c = 0x1680 \<or> (0x2000 \<le> c \<and> c \<le> 0x200A) \<or> c = 0x2028 \<or>
     c = 0x2029 \<or> c = 0x202F \<or> c = 0x205F \<or> c = 0x3000 \<or> c = 0xFEFF"

definition trim :: "jsstring \<Rightarrow> jsstring" where
  "trim s = rev (dropWhile isWhiteSpace (rev (dropWhile isWhiteSpace s)))"

text \<open>
  \<^verbatim>\<open>s.slice(start, end)\<close> for non-negative integer arguments: both ends are clamped
  to the length, and an end before the start gives the empty string.
\<close>

definition slice :: "jsstring \<Rightarrow> nat \<Rightarrow> nat \<Rightarrow> jsstring" where
  "slice s start end' =
     (let len = length s; from = min start len; to = min end' len
      in take (to - from) (drop from s))"

text \<open>\<^verbatim>\<open>s.includes(sub)\<close>: \<open>sub\<close> occurs in \<open>s\<close> as a contiguous substring.\<close>

fun includes_js :: "jsstring \<Rightarrow> jsstring \<Rightarrow> bool" where
  "includes_js [] sub = (sub = [])"
| "includes_js (c # cs) sub = (take (length sub) (c # cs) = sub \<or> includes_js cs sub)"

text \<open>
  \<^verbatim>\<open>Math.ceil(a / b)\<close> for a string length \<open>a\<close> and a positive integer \<open>b\<close>. Both are
  far below \<open>2^53\<close>, so the floating-point quotient rounds up to the same integer as
  the exact one.
\<close>

definition ceil_div :: "nat \<Rightarrow> nat \<Rightarrow> nat" where
  "ceil_div a b = (a + b - 1) div b"

section \<open>Data model\<close>

text \<open>
  The rows of the tables the storage layer reads and writes. The schema module
  (\<^verbatim>\<open>@shared/schema\<close>) is not among the sources; the columns are those the storage
  layer and the routes use. A nullable column is an \<open>option\<close>. The serial keys of pages
  and chunks are never read by the code modelled here and are left out.
\<close>

record document =
  id_d :: int
  title :: jsstring
  originalFilename :: jsstring
  filePath :: jsstring
  fileSizeBytes :: nat
  fileType :: jsstring
  documentType :: "jsstring option"
  processingStatus :: jsstring
  pageCount :: "nat option"
  fullText :: "jsstring option"
  aiSummary :: "jsstring option"
  keyTopics :: "jsstring list option"
  sentiment :: "jsstring option"
  errorMessage :: "jsstring option"
  uploadDate :: int
  processedDate :: "int option"

record documentPage =
  documentId_p :: int
  pageNumber_p :: nat
  pageText :: "jsstring option"

record embedding =
  documentId_e :: int
  pageNumber_e :: "nat option"
  chunkText :: jsstring
  chunkIndex :: nat
  tokenCount :: nat

text \<open>JSON values: response bodies, and what \<^verbatim>\<open>JSON.parse\<close> returns.\<close>

datatype json =
  JNull
| JBool bool
| JNum int
| JStr jsstring
| JArr "json list"
| JObj "(jsstring \<times> json) list"

record qaEntry =
  question_q :: jsstring
  answer_q :: "json option"
  citations_q :: "json option"
  documentIds_q :: "int list"

text \<open>
  \<^verbatim>\<open>Partial<Document>\<close>, the argument of \<^verbatim>\<open>updateDocument\<close>: the object literal's
  properties in order, each an assignment to one column.
\<close>

datatype doc_update =
  Set_processingStatus jsstring
| Set_fullText "jsstring option"
| Set_aiSummary "jsstring option"
| Set_keyTopics "jsstring list option"
| Set_sentiment "jsstring option"
| Set_errorMessage "jsstring option"
| Set_processedDate int
| Set_pageCount nat
| Set_documentType jsstring

fun apply_update :: "doc_update \<Rightarrow> document \<Rightarrow> document" where
  "apply_update (Set_processingStatus v) d = d\<lparr>processingStatus := v\<rparr>"
| "apply_update (Set_fullText v) d = d\<lparr>fullText := v\<rparr>"
| "apply_update (Set_aiSummary v) d = d\<lparr>aiSummary := v\<rparr>"
| "apply_update (Set_keyTopics v) d = d\<lparr>keyTopics := v\<rparr>"
| "apply_update (Set_sentiment v) d = d\<lparr>sentiment := v\<rparr>"
| "apply_update (Set_errorMessage v) d = d\<lparr>errorMessage := v\<rparr>"
| "apply_update (Set_processedDate v) d = d\<lparr>processedDate := Some v\<rparr>"
| "apply_update (Set_pageCount v) d = d\<lparr>pageCount := Some v\<rparr>"
| "apply_update (Set_documentType v) d = d\<lparr>documentType := Some v\<rparr>"

section \<open>External collaborators\<close>

text \<open>
  What the code calls but does not contain: the object store, the PDF library, the text
  generation service, \<^verbatim>\<open>JSON.parse\<close>, \<^verbatim>\<open>toLowerCase\<close>, the clock and the two
  PostgreSQL text predicates. They are parameters of the model; a call that can throw
  returns an \<open>outcome\<close>.
\<close>

datatype thrown = Error jsstring | NonError

datatype 'a outcome = Throws thrown | Returns 'a

type_synonym bytes = "8 word list"

text \<open>
  One \<^verbatim>\<open>PDFParse\<close> instance: what its three methods do when the pipeline calls
  them. \<open>getText\<close> is \<^verbatim>\<open>textResult.text\<close> (\<open>None\<close> when absent), \<open>getInfo\<close> is
  \<^verbatim>\<open>info.total\<close>.
\<close>

record pdf_parser =
  getText :: "jsstring option outcome"
  getInfo :: "nat outcome"
  destroy :: "unit outcome"

text \<open>The prompts sent to the generation service: the template and its interpolated parts.\<close>

datatype prompt =
  ClassifyPrompt jsstring jsstring
| DocumentAskPrompt jsstring jsstring jsstring
| CorpusAskPrompt jsstring jsstring

text \<open>\<^verbatim>\<open>message.content[0]\<close>: a text block, or a block of another type.\<close>

datatype content_block = TextBlock jsstring | OtherBlock

record env =
  download :: "jsstring \<Rightarrow> bytes outcome"
  PDFParse :: "bytes \<Rightarrow> pdf_parser outcome"
  messages_create :: "prompt \<Rightarrow> content_block outcome"
  JSON_parse :: "jsstring \<Rightarrow> json outcome"
  toLowerCase :: "jsstring \<Rightarrow> jsstring"
  now :: int
  tsmatch :: "jsstring \<Rightarrow> jsstring \<Rightarrow> bool"
  ilike :: "jsstring \<Rightarrow> jsstring \<Rightarrow> bool"

section \<open>The store and the storage layer\<close>

text \<open>
  The filters of \<^verbatim>\<open>getDocuments\<close>; an absent property is \<open>None\<close>.
\<close>

record filters =
  type_f :: "jsstring option"
  status_f :: "jsstring option"
  search_f :: "jsstring option"

text \<open>
  Every query the storage layer sends to the database and every call to an external
  service is recorded in order, so that a claim that something is or is not called can be
  stated.
\<close>

datatype call =
  SelectDocument int
| SelectDocuments filters
| SelectPages int
| SelectEmbeddingsFts jsstring nat
| SelectEmbeddingsIlike jsstring nat
| InsertPage documentPage
| InsertEmbedding embedding
| InsertQa qaEntry
| UpdateDocument int "doc_update list"
| DeleteDocument int
| DeletePages int
| DeleteEmbeddings int
| ObjectDownload jsstring
| Generate prompt

record world =
  documents :: "document list"
  documentPages :: "documentPage list"
  embeddings :: "embedding list"
  qaHistory :: "qaEntry list"
  calls :: "call list"

definition record_call :: "call \<Rightarrow> world \<Rightarrow> world" where
  "record_call c w = w\<lparr>calls := calls w @ [c]\<rparr>"

text \<open>
  A table is the list of its rows in insertion order; a \<^verbatim>\<open>select\<close> with no
  \<^verbatim>\<open>orderBy\<close> returns them in that order, and \<^verbatim>\<open>orderBy\<close> is a stable sort.
\<close>

definition getDocument :: "int \<Rightarrow> world \<Rightarrow> document option \<times> world" where
  "getDocument i w =
     (find (\<lambda>d. id_d d = i) (documents w), record_call (SelectDocument i) w)"

definition updateDocument :: "int \<Rightarrow> doc_update list \<Rightarrow> world \<Rightarrow> world" where
  "updateDocument i updates w =
     record_call (UpdateDocument i updates)
       (w\<lparr>documents :=
           map (\<lambda>d. if id_d d = i then fold apply_update updates d else d) (documents w)\<rparr>)"

definition getDocumentPages :: "int \<Rightarrow> world \<Rightarrow> documentPage list \<times> world" where
  "getDocumentPages i w =
     (sort_key pageNumber_p (filter (\<lambda>p. documentId_p p = i) (documentPages w)),
      record_call (SelectPages i) w)"

definition createDocumentPage :: "documentPage \<Rightarrow> world \<Rightarrow> world" where
  "createDocumentPage page w =
     record_call (InsertPage page) (w\<lparr>documentPages := documentPages w @ [page]\<rparr>)"

definition deleteDocumentPages :: "int \<Rightarrow> world \<Rightarrow> world" where
  "deleteDocumentPages i w =
     record_call (DeletePages i)
       (w\<lparr>documentPages := filter (\<lambda>p. documentId_p p \<noteq> i) (documentPages w)\<rparr>)"

definition createEmbedding :: "embedding \<Rightarrow> world \<Rightarrow> world" where
  "createEmbedding e w =
     record_call (InsertEmbedding e) (w\<lparr>embeddings := embeddings w @ [e]\<rparr>)"

definition deleteDocumentEmbeddings :: "int \<Rightarrow> world \<Rightarrow> world" where
  "deleteDocumentEmbeddings i w =
     record_call (DeleteEmbeddings i)
       (w\<lparr>embeddings := filter (\<lambda>e. documentId_e e \<noteq> i) (embeddings w)\<rparr>)"

text \<open>
  \<^verbatim>\<open>getDocuments\<close>: the conditions pushed for the filters that are present,
  conjoined, and the rows ordered by upload date, latest first. A comparison with a null
  column is not true in SQL.
\<close>

definition like_pattern :: "jsstring \<Rightarrow> jsstring" where
  "like_pattern s = ascii ''%'' @ s @ ascii ''%''"

definition conditions :: "env \<Rightarrow> filters \<Rightarrow> (document \<Rightarrow> bool) list" where
  "conditions E f =
     (case type_f f of
        Some t \<Rightarrow> if truthy t \<and> t \<noteq> ascii ''all''
                  then [\<lambda>d. documentType d = Some t] else []
      | None \<Rightarrow> []) @
     (case status_f f of
        Some s \<Rightarrow> if truthy s \<and> s \<noteq> ascii ''all''
                  then [\<lambda>d. processingStatus d = s] else []
      | None \<Rightarrow> []) @
     (case search_f f of
        Some q \<Rightarrow> if truthy q
                  then [\<lambda>d. ilike E (title d) (like_pattern q)
                             \<or> ilike E (originalFilename d) (like_pattern q)] else []
      | None \<Rightarrow> [])"

definition latest_first :: "document list \<Rightarrow> document list" where
  "latest_first ds = sort_key (\<lambda>d. - uploadDate d) ds"

definition getDocuments :: "env \<Rightarrow> filters \<Rightarrow> world \<Rightarrow> document list \<times> world" where
  "getDocuments E f w =
     (let cs = conditions E f; w' = record_call (SelectDocuments f) w
      in if length cs > 0
         then (latest_first (filter (\<lambda>d. list_all (\<lambda>c. c d) cs) (documents w)), w')
         else (latest_first (documents w), w'))"

text \<open>
  Modelled from the spec: the foreign keys of the pages and chunks tables are declared in
  the schema module, which is not among the sources; the spec says that deletion of a
  document cascades to its pages and chunks, so deleting a document row makes the
  database delete the page and chunk rows that reference it.
\<close>

definition on_delete_cascade :: "int \<Rightarrow> world \<Rightarrow> world" where
  "on_delete_cascade i w =
     w\<lparr>documentPages := filter (\<lambda>p. documentId_p p \<noteq> i) (documentPages w),
       embeddings := filter (\<lambda>e. documentId_e e \<noteq> i) (embeddings w)\<rparr>"

definition deleteDocument :: "int \<Rightarrow> world \<Rightarrow> world" where
  "deleteDocument i w =
     record_call (DeleteDocument i)
       (on_delete_cascade i (w\<lparr>documents := filter (\<lambda>d. id_d d \<noteq> i) (documents w)\<rparr>))"

text \<open>
  \<^verbatim>\<open>searchEmbeddings\<close>: the full-text query, and the \<^verbatim>\<open>ILIKE\<close> query over the
  chunk texts when the first has no row.
\<close>

definition searchEmbeddings :: "env \<Rightarrow> jsstring \<Rightarrow> nat \<Rightarrow> world \<Rightarrow> embedding list \<times> world" where
  "searchEmbeddings E query limit w =
     (let results = take limit (filter (\<lambda>e. tsmatch E (chunkText e) query) (embeddings w));
          w1 = record_call (SelectEmbeddingsFts query limit) w
      in if length results > 0 then (results, w1)
         else (take limit
                 (filter (\<lambda>e. ilike E (chunkText e) (like_pattern query)) (embeddings w)),
               record_call (SelectEmbeddingsIlike query limit) w1))"

definition createQaHistory :: "qaEntry \<Rightarrow> world \<Rightarrow> world" where
  "createQaHistory qa w = record_call (InsertQa qa) (w\<lparr>qaHistory := qaHistory w @ [qa]\<rparr>)"

section \<open>The processing pipeline\<close>

definition status_pending :: jsstring where "status_pending = ascii ''pending''"
definition status_processing :: jsstring where "status_processing = ascii ''processing''"
definition status_completed :: jsstring where "status_completed = ascii ''completed''"
definition status_failed :: jsstring where "status_failed = ascii ''failed''"

definition pdf_mime :: jsstring where
  "pdf_mime = ascii ''application/pdf''"

definition pdf_failure_text :: jsstring where
  "pdf_failure_text =
     ascii ''Failed to extract PDF text. The document may be scanned or image-based.''"

definition excel_text :: jsstring where
  "excel_text = ascii ''Excel/CSV content extraction not yet implemented.''"

definition image_text :: jsstring where
  "image_text = ascii ''Image OCR not yet implemented.''"

definition unsupported_text :: jsstring where
  "unsupported_text = ascii ''Unsupported document type for text extraction.''"

text \<open>The three variables the extraction step assigns.\<close>

record extraction =
  extractedText :: jsstring
  pageCount_x :: nat
  pageTexts :: "jsstring list"

definition extraction_init :: extraction where
  "extraction_init = \<lparr>extractedText = [], pageCount_x = 1, pageTexts = []\<rparr>"

text \<open>
  The page slices of a parsed PDF: \<open>pageCount\<close> slices of \<open>charsPerPage\<close> code units,
  pushed in order; nothing is pushed for an empty text.
\<close>

definition splitPages :: "jsstring \<Rightarrow> nat \<Rightarrow> jsstring list" where
  "splitPages text n =
     (if length text > 0
      then (let charsPerPage = ceil_div (length text) n
            in map (\<lambda>i. slice text (i * charsPerPage)
                          (min ((i + 1) * charsPerPage) (length text))) [0..<n])
      else [])"

text \<open>
  The \<^verbatim>\<open>catch (pdfError)\<close> block: it overwrites the text and pushes the failure text
  onto whatever the \<^verbatim>\<open>try\<close> block had pushed before it threw.
\<close>

definition pdfCatch :: "extraction \<Rightarrow> extraction" where
  "pdfCatch x = x\<lparr>extractedText := pdf_failure_text,
                  pageTexts := pageTexts x @ [pdf_failure_text]\<rparr>"

definition extractPdf :: "env \<Rightarrow> bytes \<Rightarrow> extraction" where
  "extractPdf E fileBuffer =
     (case PDFParse E fileBuffer of
        Throws _ \<Rightarrow> pdfCatch extraction_init
      | Returns parser \<Rightarrow>
          (case getText parser of
             Throws _ \<Rightarrow> pdfCatch extraction_init
           | Returns textResult \<Rightarrow>
               (case getInfo parser of
                  Throws _ \<Rightarrow> pdfCatch extraction_init
                | Returns total' \<Rightarrow>
                    (let text = (case textResult of None \<Rightarrow> [] | Some t \<Rightarrow> t);
                         n = (if total' = 0 then 1 else total');
                         x = \<lparr>extractedText = text, pageCount_x = n,
                              pageTexts = splitPages text n\<rparr>
                     in case destroy parser of
                          Throws _ \<Rightarrow> pdfCatch x
                        | Returns _ \<Rightarrow> x))))"

text \<open>
  The parsing of a PDF throws: the constructor, \<^verbatim>\<open>getText\<close> or \<^verbatim>\<open>getInfo\<close>
  throws. (\<^verbatim>\<open>destroy\<close> is the release of the parser after the parse.)
\<close>

definition parsingThrows :: "env \<Rightarrow> bytes \<Rightarrow> bool" where
  "parsingThrows E fileBuffer =
     (case PDFParse E fileBuffer of
        Throws e \<Rightarrow> True
      | Returns parser \<Rightarrow>
          (case getText parser of
             Throws e \<Rightarrow> True
           | Returns textResult \<Rightarrow>
               (case getInfo parser of Throws e \<Rightarrow> True | Returns n \<Rightarrow> False)))"

definition single_page :: "jsstring \<Rightarrow> extraction" where
  "single_page text = \<lparr>extractedText = text, pageCount_x = 1, pageTexts = [text]\<rparr>"

definition extractText :: "env \<Rightarrow> document \<Rightarrow> bytes \<Rightarrow> extraction" where
  "extractText E doc fileBuffer =
     (if fileType doc = pdf_mime then extractPdf E fileBuffer
      else if includes_js (fileType doc) (ascii ''spreadsheet'')
              \<or> includes_js (fileType doc) (ascii ''excel'') then single_page excel_text
      else if includes_js (fileType doc) (ascii ''image'') then single_page image_text
      else single_page unsupported_text)"

text \<open>
  The indexing loop, \<^verbatim>\<open>for (let i = 0; i < pageTexts.length; i++)\<close>: \<open>i\<close> is the index
  of the head of the remaining page texts. \<open>page_row\<close> and \<open>chunk_row\<close> are the two
  object literals it inserts.
\<close>

definition page_row :: "int \<Rightarrow> nat \<Rightarrow> jsstring \<Rightarrow> documentPage" where
  "page_row documentId i text =
     \<lparr>documentId_p = documentId, pageNumber_p = i + 1, pageText = Some text\<rparr>"

definition chunk_row :: "int \<Rightarrow> nat \<Rightarrow> jsstring \<Rightarrow> embedding" where
  "chunk_row documentId i text =
     \<lparr>documentId_e = documentId, pageNumber_e = Some (i + 1),
      chunkText = slice text 0 2000, chunkIndex = i,
      tokenCount = ceil_div (length text) 4\<rparr>"

fun indexPages :: "int \<Rightarrow> nat \<Rightarrow> jsstring list \<Rightarrow> world \<Rightarrow> world" where
  "indexPages documentId i [] w = w"
| "indexPages documentId i (text # rest) w =
     indexPages documentId (i + 1) rest
       (if truthy (trim text)
        then createEmbedding (chunk_row documentId i text)
               (createDocumentPage (page_row documentId i text) w)
        else w)"

definition validTypes :: "jsstring list" where
  "validTypes =
     [ascii ''annual_report'', ascii ''quarterly_earnings'', ascii ''concall_transcript'',
      ascii ''industry_report'', ascii ''research_note'', ascii ''investor_presentation'',
      ascii ''regulatory_filing'', ascii ''other'']"

definition classify :: "env \<Rightarrow> document \<Rightarrow> jsstring \<Rightarrow> world \<Rightarrow> jsstring \<times> world" where
  "classify E doc text w =
     (let p = ClassifyPrompt (title doc) (slice text 0 2000);
          w' = record_call (Generate p) w
      in case messages_create E p of
           Throws _ \<Rightarrow> (ascii ''other'', w')
         | Returns OtherBlock \<Rightarrow> (ascii ''other'', w')
         | Returns (TextBlock t) \<Rightarrow>
             (let classified = trim (toLowerCase E t)
              in (if classified \<in> set validTypes then classified else ascii ''other'', w')))"

text \<open>
  \<^verbatim>\<open>processDocument\<close>. The statements of the outer \<^verbatim>\<open>try\<close> block up to, and
  without, its last one (the update that marks the document completed) are
  \<open>processBody\<close>; in the model the only one of them that can throw is the download of
  the file. \<open>processDocument\<close> then runs the last update, the outer \<^verbatim>\<open>catch\<close>
  block, or nothing when the document is gone (\<^verbatim>\<open>if (!document) return\<close>).
\<close>

definition error_message :: "thrown \<Rightarrow> jsstring" where
  "error_message e = (case e of Error m \<Rightarrow> m | NonError \<Rightarrow> ascii ''Unknown error'')"

datatype body_result =
  Gone world
| Failed thrown world
| Extracted extraction jsstring world

fun world_of :: "body_result \<Rightarrow> world" where
  "world_of (Gone w) = w"
| "world_of (Failed e w) = w"
| "world_of (Extracted x t w) = w"

definition processBody :: "env \<Rightarrow> int \<Rightarrow> world \<Rightarrow> body_result" where
  "processBody E documentId w0 =
     (let w1 = updateDocument documentId [Set_processingStatus status_processing] w0;
          (found, w2) = getDocument documentId w1
      in case found of
           None \<Rightarrow> Gone w2
         | Some doc \<Rightarrow>
             (let w3 = record_call (ObjectDownload (filePath doc)) w2
              in case download E (filePath doc) of
                   Throws e \<Rightarrow> Failed e w3
                 | Returns fileBuffer \<Rightarrow>
                     (let x = extractText E doc fileBuffer;
                          w4 = indexPages documentId 0 (pageTexts x) w3;
                          (docType, w5) = classify E doc (extractedText x) w4
                      in Extracted x docType w5)))"

definition processDocument :: "env \<Rightarrow> int \<Rightarrow> world \<Rightarrow> world" where
  "processDocument E documentId w0 =
     (case processBody E documentId w0 of
        Gone w \<Rightarrow> w
      | Failed e w \<Rightarrow>
          updateDocument documentId
            [Set_processingStatus status_failed,
             Set_errorMessage (Some (error_message e))] w
      | Extracted x docType w \<Rightarrow>
          updateDocument documentId
            [Set_processingStatus status_completed,
             Set_processedDate (now E),
             Set_fullText (Some (extractedText x)),
             Set_pageCount (pageCount_x x),
             Set_documentType docType] w)"

section \<open>The routes\<close>

text \<open>
  A route takes the parsed request and the world and returns the response it sends and the
  world it leaves. Every handler is one \<^verbatim>\<open>try\<close> block whose \<^verbatim>\<open>catch\<close> answers 500.
  A path parameter is the integer \<^verbatim>\<open>parseInt\<close> has read; a body property is \<open>None\<close>
  when the request does not have it.
\<close>

datatype response = Response nat "json option"

definition obj :: "(string \<times> json) list \<Rightarrow> json" where
  "obj kvs = JObj (map (\<lambda>(k, v). (ascii k, v)) kvs)"

definition error_response :: "nat \<Rightarrow> string \<Rightarrow> response" where
  "error_response code msg = Response code (Some (obj [(''error'', JStr (ascii msg))]))"

definition json_response :: "json \<Rightarrow> response" where
  "json_response j = Response 200 (Some j)"

text \<open>Reading a property of a parsed object; \<open>None\<close> is \<^verbatim>\<open>undefined\<close>.\<close>

fun property :: "json \<Rightarrow> string \<Rightarrow> json option" where
  "property (JObj kvs) k = map_of kvs (ascii k)"
| "property j k = None"

text \<open>\<^verbatim>\<open>a || b\<close> for a string \<open>a\<close> that may be absent, and \<^verbatim>\<open>a || null\<close>.\<close>

definition or_else :: "jsstring option \<Rightarrow> jsstring \<Rightarrow> jsstring" where
  "or_else a b = (case a of Some s \<Rightarrow> if truthy s then s else b | None \<Rightarrow> b)"

definition or_null :: "jsstring option \<Rightarrow> json" where
  "or_null a = (case a of Some s \<Rightarrow> if truthy s then JStr s else JNull | None \<Rightarrow> JNull)"

text \<open>A non-negative integer interpolated into a template string: its decimal digits.\<close>

fun show_nat :: "nat \<Rightarrow> jsstring" where
  "show_nat n =
     (if n < 10 then [of_nat (48 + n)]
      else show_nat (n div 10) @ [of_nat (48 + n mod 10)])"

declare show_nat.simps [simp del]

fun join :: "jsstring \<Rightarrow> jsstring list \<Rightarrow> jsstring" where
  "join sep [] = []"
| "join sep [x] = x"
| "join sep (x # y # ys) = x @ sep @ join sep (y # ys)"

definition separator :: jsstring where
  "separator = [0x0A, 0x0A] @ ascii ''---'' @ [0x0A, 0x0A]"

text \<open>
  \<^verbatim>\<open>text.match(/\{[\s\S]*\}/)\<close>: the match starts at the first opening brace and, the
  star being greedy, ends at the last closing brace after it; there is no match when no
  closing brace follows an opening one.
\<close>

definition jsonMatch :: "jsstring \<Rightarrow> jsstring option" where
  "jsonMatch text =
     (let s = dropWhile (\<lambda>c. c \<noteq> 0x7B) text
      in if 0x7D \<in> set s then Some (rev (dropWhile (\<lambda>c. c \<noteq> 0x7D) (rev s))) else None)"

text \<open>
  \<^verbatim>\<open>Promise.all(xs.map(async (x) => ...))\<close> where each callback awaits one storage
  call: the queries are issued in the order of the list.
\<close>

fun promise_all :: "('a \<Rightarrow> world \<Rightarrow> 'b \<times> world) \<Rightarrow> 'a list \<Rightarrow> world \<Rightarrow> 'b list \<times> world" where
  "promise_all f [] w = ([], w)"
| "promise_all f (x # xs) w =
     (let (y, w1) = f x w; (ys, w2) = promise_all f xs w1 in (y # ys, w2))"

text \<open>\<^verbatim>\<open>Array.from(new Set(xs))\<close>: the first occurrence of each element, in order.\<close>

definition unique :: "int list \<Rightarrow> int list" where
  "unique xs = rev (remdups (rev xs))"

subsection \<open>DELETE /api/documents/:id\<close>

definition delete_route :: "int \<Rightarrow> world \<Rightarrow> response \<times> world" where
  "delete_route i w = (Response 204 None, deleteDocument i w)"

subsection \<open>POST /api/documents/:id/reprocess\<close>

text \<open>
  The route answers from the world it returns here; the pipeline run it starts
  (\<open>processDocument\<close>, not awaited) begins in that world.
\<close>

definition reprocess_route :: "int \<Rightarrow> world \<Rightarrow> response \<times> world" where
  "reprocess_route i w =
     (let (found, w1) = getDocument i w
      in case found of
           None \<Rightarrow> (error_response 404 ''Document not found'', w1)
         | Some doc \<Rightarrow>
             (let w2 = deleteDocumentPages i w1;
                  w3 = deleteDocumentEmbeddings i w2;
                  w4 = updateDocument i
                         [Set_processingStatus status_pending,
                          Set_fullText None,
                          Set_aiSummary None,
                          Set_keyTopics None,
                          Set_sentiment None,
                          Set_errorMessage None] w3
              in (json_response
                    (obj [(''message'', JStr (ascii ''Document reprocessing started'')),
                          (''documentId'', JNum i)]), w4)))"

subsection \<open>POST /api/documents/:id/ask\<close>

definition has_text :: "documentPage \<Rightarrow> bool" where
  "has_text p = (case pageText p of Some t \<Rightarrow> truthy t | None \<Rightarrow> False)"

definition page_block :: "documentPage \<Rightarrow> jsstring" where
  "page_block p =
     ascii ''[Page '' @ show_nat (pageNumber_p p) @ ascii '']'' @ [0x0A]
       @ (case pageText p of Some t \<Rightarrow> t | None \<Rightarrow> [])"

definition document_ask :: "env \<Rightarrow> int \<Rightarrow> jsstring option \<Rightarrow> world \<Rightarrow> response \<times> world" where
  "document_ask E i question w =
     (case question of
        None \<Rightarrow> (error_response 400 ''Question is required'', w)
      | Some q \<Rightarrow>
          if \<not> truthy q then (error_response 400 ''Question is required'', w)
          else
            (let (found, w1) = getDocument i w
             in case found of
                  None \<Rightarrow> (error_response 404 ''Document not found'', w1)
                | Some doc \<Rightarrow>
                    (let (pages, w2) = getDocumentPages i w1;
                         pagesWithText = filter has_text pages
                     in if length pagesWithText = 0
                        then (json_response
                                (obj [(''answer'', JStr (ascii
                                        ''No text content available in this document to answer your question.'')),
                                      (''citations'', JArr [])]), w2)
                        else
                          (let context = slice (join separator (map page_block pagesWithText))
                                           0 50000;
                               p = DocumentAskPrompt (title doc) context q;
                               w3 = record_call (Generate p) w2
                           in case messages_create E p of
                                Throws e \<Rightarrow> (error_response 500 ''Failed to answer question'', w3)
                              | Returns OtherBlock \<Rightarrow>
                                  (error_response 500 ''Failed to answer question'', w3)
                              | Returns (TextBlock t) \<Rightarrow>
                                  (case jsonMatch t of
                                     None \<Rightarrow>
                                       (json_response
                                          (obj [(''answer'', JStr t), (''citations'', JArr [])]),
                                        w3)
                                   | Some m \<Rightarrow>
                                       (case JSON_parse E m of
                                          Throws e \<Rightarrow>
                                            (error_response 500 ''Failed to answer question'',
                                             w3)
                                        | Returns j \<Rightarrow> (json_response j, w3)))))))"

subsection \<open>POST /api/search\<close>

definition no_filters :: filters where
  "no_filters = \<lparr>type_f = None, status_f = None, search_f = None\<rparr>"

definition fallbackResult :: "document \<Rightarrow> world \<Rightarrow> json \<times> world" where
  "fallbackResult doc w =
     (let (pages, w1) = getDocumentPages (id_d doc) w;
          fromPage = (case pages of
                        [] \<Rightarrow> None
                      | firstPage # rest \<Rightarrow>
                          map_option (\<lambda>t. slice t 0 300) (pageText firstPage));
          fromFull = map_option (\<lambda>t. slice t 0 300) (fullText doc)
      in (obj [(''documentId'', JNum (id_d doc)),
               (''documentTitle'', JStr (title doc)),
               (''documentType'', or_null (documentType doc)),
               (''pageNumber'', JNum 1),
               (''chunkText'',
                  JStr (or_else fromPage (or_else fromFull (ascii ''No preview available'')))),
               (''score'', JNum 1)], w1))"

definition searchResult :: "embedding \<Rightarrow> world \<Rightarrow> json \<times> world" where
  "searchResult emb w =
     (let (doc, w1) = getDocument (documentId_e emb) w
      in (obj [(''documentId'', JNum (documentId_e emb)),
               (''documentTitle'', JStr (or_else (map_option title doc) (ascii ''Unknown''))),
               (''documentType'',
                  or_null (case doc of None \<Rightarrow> None | Some d \<Rightarrow> documentType d)),
               (''pageNumber'',
                  (case pageNumber_e emb of None \<Rightarrow> JNull | Some n \<Rightarrow> JNum (int n))),
               (''chunkText'', JStr (chunkText emb)),
               (''score'', JNum 1)], w1))"

definition results_response :: "json list \<Rightarrow> response" where
  "results_response results =
     json_response (obj [(''results'', JArr results),
                         (''total'', JNum (int (length results)))])"

definition search_route :: "env \<Rightarrow> jsstring option \<Rightarrow> world \<Rightarrow> response \<times> world" where
  "search_route E query w =
     (case query of
        None \<Rightarrow> (error_response 400 ''Query is required'', w)
      | Some q \<Rightarrow>
          if \<not> truthy q then (error_response 400 ''Query is required'', w)
          else
            (let (found, w1) = searchEmbeddings E q 20 w
             in if length found = 0
                then (let (allDocs, w2) =
                            getDocuments E (no_filters\<lparr>search_f := Some q\<rparr>) w1;
                          (results, w3) = promise_all fallbackResult (take 10 allDocs) w2
                      in (results_response results, w3))
                else (let (results, w2) = promise_all searchResult found w1
                      in (results_response results, w2))))"

subsection \<open>POST /api/qa/ask\<close>

record contentItem =
  documentId_c :: int
  documentTitle_c :: jsstring
  pageNumber_c :: "nat option"
  chunkText_c :: jsstring

text \<open>
  The loop over the documents of the fallback: the items pushed for one document, its
  pages that have text, or its full text when it has no page, then those of the rest.
\<close>

fun collectContent :: "document list \<Rightarrow> world \<Rightarrow> contentItem list \<times> world" where
  "collectContent [] w = ([], w)"
| "collectContent (doc # rest) w =
     (let (pages, w1) = getDocumentPages (id_d doc) w;
          fromPages =
            map (\<lambda>page. \<lparr>documentId_c = id_d doc, documentTitle_c = title doc,
                          pageNumber_c = Some (pageNumber_p page),
                          chunkText_c = (case pageText page of Some t \<Rightarrow> t | None \<Rightarrow> [])\<rparr>)
              (filter has_text pages);
          fromFull =
            (case fullText doc of
               Some t \<Rightarrow>
                 if length pages = 0 \<and> truthy t
                 then [\<lparr>documentId_c = id_d doc, documentTitle_c = title doc,
                        pageNumber_c = Some 1, chunkText_c = t\<rparr>]
                 else []
             | None \<Rightarrow> []);
          (more, w2) = collectContent rest w1
      in (fromPages @ fromFull @ more, w2))"

text \<open>
  One block of the context. \<open>na\<close> tells whether a missing or zero page number is
  written \<^verbatim>\<open>N/A\<close> (\<^verbatim>\<open>c.pageNumber || "N/A"\<close>, the branch of the search results) or as
  it is (the fallback branch, whose page numbers are never missing).
\<close>

definition source_block :: "bool \<Rightarrow> nat \<times> contentItem \<Rightarrow> jsstring" where
  "source_block na ic =
     (case ic of (i, c) \<Rightarrow>
        ascii ''[Source '' @ show_nat (i + 1) @ ascii '': '' @ documentTitle_c c
          @ ascii '', Page ''
          @ (case pageNumber_c c of
               Some n \<Rightarrow> if na \<and> n = 0 then ascii ''N/A'' else show_nat n
             | None \<Rightarrow> if na then ascii ''N/A'' else ascii ''null'')
          @ ascii '']'' @ [0x0A] @ chunkText_c c)"

definition withDocumentTitle :: "embedding \<Rightarrow> world \<Rightarrow> contentItem \<times> world" where
  "withDocumentTitle chunk w =
     (let (doc, w1) = getDocument (documentId_e chunk) w
      in (\<lparr>documentId_c = documentId_e chunk,
           documentTitle_c = or_else (map_option title doc) (ascii ''Unknown Document''),
           pageNumber_c = pageNumber_e chunk,
           chunkText_c = chunkText chunk\<rparr>, w1))"

text \<open>
  The end of both branches of the route, written twice in the source with the same
  text: the request to the generation service, the parse of its reply with the raw text
  as the answer when no braces are found, the history entry and the response.
\<close>

definition answerFrom ::
    "env \<Rightarrow> jsstring \<Rightarrow> jsstring \<Rightarrow> int list \<Rightarrow> world \<Rightarrow> response \<times> world" where
  "answerFrom E context q documentIds w =
     (let p = CorpusAskPrompt context q;
          w1 = record_call (Generate p) w
      in case messages_create E p of
           Throws e \<Rightarrow> (error_response 500 ''Failed to answer question'', w1)
         | Returns OtherBlock \<Rightarrow> (error_response 500 ''Failed to answer question'', w1)
         | Returns (TextBlock t) \<Rightarrow>
             (case (case jsonMatch t of
                      Some m \<Rightarrow> JSON_parse E m
                    | None \<Rightarrow>
                        Returns (obj [(''answer'', JStr t),
                                      (''citations'', JArr []),
                                      (''insufficientEvidence'', JBool False)])) of
                Throws e \<Rightarrow> (error_response 500 ''Failed to answer question'', w1)
              | Returns r \<Rightarrow>
                  (json_response r,
                   createQaHistory
                     \<lparr>question_q = q, answer_q = property r ''answer'',
                      citations_q = property r ''citations'',
                      documentIds_q = unique documentIds\<rparr> w1)))"

definition no_documents_response :: response where
  "no_documents_response =
     json_response
       (obj [(''answer'', JStr (ascii
               ''No documents have been uploaded yet. Please upload some documents first.'')),
             (''citations'', JArr []),
             (''insufficientEvidence'', JBool True)])"

definition no_text_response :: response where
  "no_text_response =
     json_response
       (obj [(''answer'', JStr (ascii
               ''I cannot answer this question - the documents appear to have no extractable text content.'')),
             (''citations'', JArr []),
             (''insufficientEvidence'', JBool True)])"

definition qa_ask :: "env \<Rightarrow> jsstring option \<Rightarrow> world \<Rightarrow> response \<times> world" where
  "qa_ask E question w =
     (case question of
        None \<Rightarrow> (error_response 400 ''Question is required'', w)
      | Some q \<Rightarrow>
          if \<not> truthy q then (error_response 400 ''Question is required'', w)
          else
            (let (relevantChunks, w1) = searchEmbeddings E q 10 w
             in if length relevantChunks = 0
                then
                  (let (allDocs, w2) = getDocuments E no_filters w1
                   in if length allDocs = 0 then (no_documents_response, w2)
                      else
                        (let (allContent, w3) = collectContent (take 5 allDocs) w2
                         in if length allContent = 0 then (no_text_response, w3)
                            else answerFrom E
                                   (slice (join separator
                                             (map (source_block False) (enumerate 0 allContent)))
                                      0 50000)
                                   q (map documentId_c allContent) w3))
                else
                  (let (chunksWithDocs, w2) = promise_all withDocumentTitle relevantChunks w1
                   in answerFrom E
                        (join separator (map (source_block True) (enumerate 0 chunksWithDocs)))
                        q (map documentId_c chunksWithDocs) w2)))"

section \<open>Notions the claims are stated with\<close>

text \<open>The prompts sent to the generation service, read off the record of calls.\<close>

fun generated :: "call list \<Rightarrow> prompt list" where
  "generated [] = []"
| "generated (Generate p # cs) = p # generated cs"
| "generated (c # cs) = generated cs"

text \<open>The calls a route or a run has added to the record of the world it started in.\<close>

definition new_calls :: "world \<Rightarrow> world \<Rightarrow> call list" where
  "new_calls w w' = drop (length (calls w)) (calls w')"

text \<open>
  Modelled from the spec: a document owns its pages and chunks (the foreign keys of the
  schema module, which is not among the sources), so every stored page and every stored
  chunk references a stored document.
\<close>

definition references_ok :: "world \<Rightarrow> bool" where
  "references_ok w \<longleftrightarrow>
     (\<forall>p\<in>set (documentPages w). \<exists>d\<in>set (documents w). id_d d = documentId_p p)
     \<and> (\<forall>e\<in>set (embeddings w). \<exists>d\<in>set (documents w). id_d d = documentId_e e)"

section \<open>Example inputs\<close>

text \<open>
  Concrete documents, worlds and collaborators, on which the theorems below are
  instantiated.
\<close>

definition example_document :: "int \<Rightarrow> jsstring \<Rightarrow> int \<Rightarrow> document" where
  "example_document i mime uploaded =
     \<lparr>id_d = i, title = ascii ''Q3 Report'', originalFilename = ascii ''Q3 Report.pdf'',
      filePath = ascii ''/objects/uploads/q3'', fileSizeBytes = 1024, fileType = mime,
      documentType = None, processingStatus = status_pending, pageCount = None,
      fullText = None, aiSummary = None, keyTopics = None, sentiment = None,
      errorMessage = None, uploadDate = uploaded, processedDate = None\<rparr>"

definition example_world :: "document list \<Rightarrow> world" where
  "example_world ds =
     \<lparr>documents = ds, documentPages = [], embeddings = [], qaHistory = [], calls = []\<rparr>"

text \<open>A PDF the library parses into \<open>text\<close> and reports as \<open>n\<close> pages.\<close>

definition parsed_pdf :: "jsstring \<Rightarrow> nat \<Rightarrow> pdf_parser outcome" where
  "parsed_pdf text n =
     Returns \<lparr>getText = Returns (Some text), getInfo = Returns n, destroy = Returns ()\<rparr>"

text \<open>
  Collaborators for the examples: the download succeeds, the PDF library and the
  generation service answer as given, \<^verbatim>\<open>JSON.parse\<close> rejects every text, a chunk
  matches the full-text query when the query is one of its space-separated words, and
  \<^verbatim>\<open>ILIKE\<close> is the substring test on a pattern with no wildcard but the two added
  ones. On the inputs of the examples PostgreSQL and \<^verbatim>\<open>JSON.parse\<close> answer the
  same.
\<close>

definition words_of :: "jsstring \<Rightarrow> jsstring list" where
  "words_of s =
     filter (\<lambda>w. w \<noteq> [])
       (foldr (\<lambda>c acc. if c = 0x20 then [] # acc else (c # hd acc) # tl acc) s [[]])"

definition example_env :: "pdf_parser outcome \<Rightarrow> content_block outcome \<Rightarrow> env" where
  "example_env pdf reply =
     \<lparr>download = (\<lambda>path. Returns []),
      PDFParse = (\<lambda>fileBuffer. pdf),
      messages_create = (\<lambda>p. reply),
      JSON_parse = (\<lambda>s. Throws (Error (ascii ''Unexpected token''))),
      toLowerCase = (\<lambda>s. s),
      now = 1700000000000,
      tsmatch = (\<lambda>text query. query \<in> set (words_of text)),
      ilike = (\<lambda>text pattern. includes_js text (butlast (tl pattern)))\<rparr>"

text \<open>
  The world after the upload of one PDF with the given text and page count has been
  processed.
\<close>

definition processed_world :: "jsstring \<Rightarrow> nat \<Rightarrow> world" where
  "processed_world text n =
     processDocument (example_env (parsed_pdf text n) (Throws NonError)) 1
       (example_world [example_document 1 pdf_mime 0])"

text \<open>
  Six documents uploaded at the times 1 to 6; the oldest and the latest have one page
  each.
\<close>

definition dated_world :: world where
  "dated_world =
     (example_world (map (\<lambda>i. example_document i pdf_mime i) [1, 2, 3, 4, 5, 6]))
       \<lparr>documentPages := [page_row 1 0 (ascii ''old''), page_row 6 0 (ascii ''new'')]\<rparr>"

section \<open>Facts about the storage layer and the pipeline\<close>

lemma slice_0: "slice s 0 n = take n s"
  by (simp add: slice_def Let_def min_def)

lemma record_call_fields [simp]:
  "documents (record_call c w) = documents w"
  "documentPages (record_call c w) = documentPages w"
  "embeddings (record_call c w) = embeddings w"
  "qaHistory (record_call c w) = qaHistory w"
  "calls (record_call c w) = calls w @ [c]"
  by (simp_all add: record_call_def)

lemma updateDocument_fields [simp]:
  "documentPages (updateDocument i us w) = documentPages w"
  "embeddings (updateDocument i us w) = embeddings w"
  "qaHistory (updateDocument i us w) = qaHistory w"
  "documents (updateDocument i us w) =
     map (\<lambda>d. if id_d d = i then fold apply_update us d else d) (documents w)"
  "calls (updateDocument i us w) = calls w @ [UpdateDocument i us]"
  by (simp_all add: updateDocument_def)

lemma getDocument_fields [simp]:
  "fst (getDocument i w) = find (\<lambda>d. id_d d = i) (documents w)"
  "snd (getDocument i w) = record_call (SelectDocument i) w"
  by (simp_all add: getDocument_def)

lemma create_fields [simp]:
  "documents (createDocumentPage p w) = documents w"
  "documentPages (createDocumentPage p w) = documentPages w @ [p]"
  "embeddings (createDocumentPage p w) = embeddings w"
  "qaHistory (createDocumentPage p w) = qaHistory w"
  "calls (createDocumentPage p w) = calls w @ [InsertPage p]"
  "documents (createEmbedding e w) = documents w"
  "documentPages (createEmbedding e w) = documentPages w"
  "embeddings (createEmbedding e w) = embeddings w @ [e]"
  "qaHistory (createEmbedding e w) = qaHistory w"
  "calls (createEmbedding e w) = calls w @ [InsertEmbedding e]"
  by (simp_all add: createDocumentPage_def createEmbedding_def)

lemma indexPages_documents [simp]: "documents (indexPages d i ts w) = documents w"
  by (induction ts arbitrary: i w) simp_all

lemma indexPages_qa [simp]: "qaHistory (indexPages d i ts w) = qaHistory w"
  by (induction ts arbitrary: i w) simp_all

lemma indexPages_embeddings:
  "embeddings (indexPages d i ts w) =
     embeddings w @ map (\<lambda>(j, t). chunk_row d j t)
       (filter (\<lambda>(j, t). truthy (trim t)) (enumerate i ts))"
  by (induction ts arbitrary: i w) simp_all

lemma indexPages_pages:
  "documentPages (indexPages d i ts w) =
     documentPages w @ map (\<lambda>(j, t). page_row d j t)
       (filter (\<lambda>(j, t). truthy (trim t)) (enumerate i ts))"
  by (induction ts arbitrary: i w) simp_all

lemma filter_enumerate_index:
  "filter (\<lambda>(j, t). j = k) (enumerate n ts) =
     (if n \<le> k \<and> k < n + length ts then [(k, ts ! (k - n))] else [])"
proof (induction ts arbitrary: n)
  case Nil
  show ?case by simp
next
  case (Cons t ts)
  show ?case
    by (auto simp: Cons.IH Suc_diff_le)
qed

lemma positions_enumerate:
  "map fst (filter (\<lambda>(j, t). P t) (enumerate n ts)) =
     filter (\<lambda>j. P (ts ! (j - n))) [n..<n + length ts]"
proof (induction ts arbitrary: n)
  case Nil
  show ?case by simp
next
  case (Cons t ts)
  have tl: "filter (\<lambda>j. P ((t # ts) ! (j - n))) [Suc n..<Suc n + length ts] =
        filter (\<lambda>j. P (ts ! (j - Suc n))) [Suc n..<Suc n + length ts]"
  proof (rule filter_cong)
    fix j assume "j \<in> set [Suc n..<Suc n + length ts]"
    then have "j - n = Suc (j - Suc n)" by auto
    then show "P ((t # ts) ! (j - n)) = P (ts ! (j - Suc n))" by simp
  qed simp
  have up: "[n..<n + length (t # ts)] = n # [Suc n..<Suc n + length ts]"
    by (simp add: upt_conv_Cons del: upt_Suc)
  from tl have tl': "filter (\<lambda>j. P ((t # ts) ! (j - n))) [Suc n..<Suc (n + length ts)] =
        filter (\<lambda>j. P (ts ! (j - Suc n))) [Suc n..<Suc (n + length ts)]"
    by simp
  show ?case
    unfolding up by (simp add: Cons.IH tl' del: upt_Suc)
qed

lemma find_update:
  assumes "\<And>d. id_d (f d) = id_d d"
  shows "find (\<lambda>d. id_d d = i) (map (\<lambda>d. if id_d d = i then f d else d) ds) =
         map_option f (find (\<lambda>d. id_d d = i) ds)"
  using assms by (induction ds) auto

lemma id_apply_update [simp]: "id_d (apply_update u d) = id_d d"
  by (cases u) simp_all

lemma id_fold_update [simp]: "id_d (fold apply_update us d) = id_d d"
  by (induction us arbitrary: d) simp_all

lemma classify_fields [simp]:
  "documents (snd (classify E doc t w)) = documents w"
  "documentPages (snd (classify E doc t w)) = documentPages w"
  "embeddings (snd (classify E doc t w)) = embeddings w"
  "qaHistory (snd (classify E doc t w)) = qaHistory w"
  by (simp_all add: classify_def Let_def split: outcome.splits content_block.splits)

lemma extractText_status [simp]:
  "extractText E (doc\<lparr>processingStatus := s\<rparr>) buf = extractText E doc buf"
  by (simp add: extractText_def)

lemma processBody_found:
  assumes "find (\<lambda>d. id_d d = did) (documents w) = Some doc"
    and "download E (filePath doc) = Returns buf"
  shows "\<exists>t w'. processBody E did w = Extracted (extractText E doc buf) t w'
           \<and> embeddings w' = embeddings (indexPages did 0 (pageTexts (extractText E doc buf)) w)
           \<and> documentPages w' = documentPages (indexPages did 0 (pageTexts (extractText E doc buf)) w)
           \<and> documents w' = map (\<lambda>d. if id_d d = did then d\<lparr>processingStatus := status_processing\<rparr> else d) (documents w)"
  using assms
  by (simp add: processBody_def Let_def split_def find_update indexPages_embeddings indexPages_pages)

lemma processBody_gone:
  assumes "find (\<lambda>d. id_d d = did) (documents w) = None"
  shows "\<exists>w'. processBody E did w = Gone w'
           \<and> embeddings w' = embeddings w \<and> documentPages w' = documentPages w"
  using assms by (simp add: processBody_def Let_def split_def find_update)

lemma processBody_failed:
  assumes "find (\<lambda>d. id_d d = did) (documents w) = Some doc"
    and "download E (filePath doc) = Throws e"
  shows "\<exists>w'. processBody E did w = Failed e w'
           \<and> embeddings w' = embeddings w \<and> documentPages w' = documentPages w"
  using assms by (simp add: processBody_def Let_def split_def find_update)

lemma processDocument_rows:
  "\<exists>ts. embeddings (processDocument E did w) =
          embeddings w @ map (\<lambda>(j, t). chunk_row did j t)
            (filter (\<lambda>(j, t). truthy (trim t)) (enumerate 0 ts))
      \<and> documentPages (processDocument E did w) =
          documentPages w @ map (\<lambda>(j, t). page_row did j t)
            (filter (\<lambda>(j, t). truthy (trim t)) (enumerate 0 ts))
      \<and> (\<forall>doc buf. find (\<lambda>d. id_d d = did) (documents w) = Some doc
            \<longrightarrow> download E (filePath doc) = Returns buf
            \<longrightarrow> ts = pageTexts (extractText E doc buf))"
proof (cases "find (\<lambda>d. id_d d = did) (documents w)")
  case None
  from processBody_gone [OF None, of E] obtain w' where
    "processBody E did w = Gone w'" "embeddings w' = embeddings w"
    "documentPages w' = documentPages w" by blast
  then show ?thesis
    using None by (intro exI [of _ "[]"]) (simp add: processDocument_def)
next
  case (Some doc)
  show ?thesis
  proof (cases "download E (filePath doc)")
    case (Throws e)
    from processBody_failed [OF Some Throws] obtain w' where
      "processBody E did w = Failed e w'" "embeddings w' = embeddings w"
      "documentPages w' = documentPages w" by blast
    then show ?thesis
      using Some Throws by (intro exI [of _ "[]"]) (simp add: processDocument_def)
  next
    case (Returns buf)
    from processBody_found [OF Some Returns] obtain t w' where
      "processBody E did w = Extracted (extractText E doc buf) t w'"
      "embeddings w' = embeddings (indexPages did 0 (pageTexts (extractText E doc buf)) w)"
      "documentPages w' = documentPages (indexPages did 0 (pageTexts (extractText E doc buf)) w)"
      by blast
    then show ?thesis
      using Some Returns
      by (intro exI [of _ "pageTexts (extractText E doc buf)"])
         (simp add: processDocument_def indexPages_embeddings indexPages_pages)
  qed
qed

lemma sorted_positions: "sorted_wrt (<) (map fst (filter Q (enumerate n ts)))"
proof -
  have "sorted_wrt (<) (map fst (enumerate n ts))"
    by (simp add: map_fst_enumerate del: upt_Suc)
  then have "sorted_wrt (\<lambda>x y. fst x < fst y) (enumerate n ts)"
    by (simp only: sorted_wrt_map)
  then have "sorted_wrt (\<lambda>x y. fst x < fst y) (filter Q (enumerate n ts))"
    by (rule sorted_wrt_filter)
  then show ?thesis
    by (simp only: sorted_wrt_map)
qed

lemma filter_prefix_upt:
  assumes "\<forall>i j. i < j \<longrightarrow> j < n \<longrightarrow> P j \<longrightarrow> P i"
  shows "filter P [0..<n] = [0..<length (filter P [0..<n])]"
  using assms
proof (induction n)
  case 0
  show ?case by simp
next
  case (Suc n)
  show ?case
  proof (cases "P n")
    case True
    with Suc.prems have "\<forall>i<n. P i" by blast
    then have "filter P [0..<n] = [0..<n]" by simp
    with True show ?thesis by simp
  next
    case False
    from Suc.prems have "\<forall>i j. i < j \<longrightarrow> j < n \<longrightarrow> P j \<longrightarrow> P i" by simp
    from Suc.IH [OF this] False show ?thesis by simp
  qed
qed

lemma chunk_text_bound: "length (chunkText (chunk_row d j t)) \<le> 2000"
  by (simp add: chunk_row_def slice_0)

lemma own_chunks:
  assumes "\<forall>e\<in>set (embeddings w). documentId_e e \<noteq> did"
  shows "filter (\<lambda>e. documentId_e e = did)
           (embeddings w @ map (\<lambda>(j, t). chunk_row did j t) xs) =
         map (\<lambda>(j, t). chunk_row did j t) xs"
proof -
  have "filter (\<lambda>e. documentId_e e = did) (embeddings w) = []"
    using assms by (auto simp: filter_empty_conv)
  moreover have "filter (\<lambda>e. documentId_e e = did) (map (\<lambda>(j, t). chunk_row did j t) xs) =
                 map (\<lambda>(j, t). chunk_row did j t) xs"
    by (induction xs) (auto simp: chunk_row_def)
  ultimately show ?thesis by simp
qed

lemma own_pages:
  assumes "\<forall>p\<in>set (documentPages w). documentId_p p \<noteq> did"
  shows "filter (\<lambda>p. documentId_p p = did)
           (documentPages w @ map (\<lambda>(j, t). page_row did j t) xs) =
         map (\<lambda>(j, t). page_row did j t) xs"
proof -
  have "filter (\<lambda>p. documentId_p p = did) (documentPages w) = []"
    using assms by (auto simp: filter_empty_conv)
  moreover have "filter (\<lambda>p. documentId_p p = did) (map (\<lambda>(j, t). page_row did j t) xs) =
                 map (\<lambda>(j, t). page_row did j t) xs"
    by (induction xs) (auto simp: page_row_def)
  ultimately show ?thesis by simp
qed

lemma chunk_indices: "map chunkIndex (map (\<lambda>(j, t). chunk_row did j t) xs) = map fst xs"
  by (induction xs) (auto simp: chunk_row_def)

lemma page_numbers: "map pageNumber_p (map (\<lambda>(j, t). page_row did j t) xs) = map Suc (map fst xs)"
  by (induction xs) (auto simp: page_row_def)

lemma trim_failure_text: "truthy (trim pdf_failure_text)"
  by (simp add: pdf_failure_text_def trim_def truthy_def ascii_def isWhiteSpace_def)

lemma extractPdf_throws:
  "parsingThrows E buf \<Longrightarrow>
     extractPdf E buf = \<lparr>extractedText = pdf_failure_text, pageCount_x = 1,
                         pageTexts = [pdf_failure_text]\<rparr>"
  by (auto simp: parsingThrows_def extractPdf_def pdfCatch_def extraction_init_def
      split: outcome.splits)

lemma status_distinct: "status_completed \<noteq> status_failed"
  by (simp add: status_completed_def status_failed_def ascii_def)

lemma processBody_documents:
  "documents (world_of (processBody E did w)) =
     map (\<lambda>d. if id_d d = did then d\<lparr>processingStatus := status_processing\<rparr> else d)
       (documents w)"
  by (simp add: processBody_def Let_def split_def split: option.splits outcome.splits)

lemma delete_rows_fields [simp]:
  "documents (deleteDocumentPages i w) = documents w"
  "documents (deleteDocumentEmbeddings i w) = documents w"
  by (simp_all add: deleteDocumentPages_def deleteDocumentEmbeddings_def)

lemma upt_small: "[0..<2] = [0, 1]" "[0..<3] = [0, 1, 2]"
  by (simp_all add: upt_rec)

lemma new_calls_append [simp]: "calls w' = calls w @ cs \<Longrightarrow> new_calls w w' = cs"
  by (simp add: new_calls_def)

lemma generated_append [simp]: "generated (xs @ ys) = generated xs @ generated ys"
  by (induction xs rule: generated.induct) simp_all

lemma searchEmbeddings_tables [simp]:
  "documents (snd (searchEmbeddings E q n w)) = documents w"
  "documentPages (snd (searchEmbeddings E q n w)) = documentPages w"
  "embeddings (snd (searchEmbeddings E q n w)) = embeddings w"
  "qaHistory (snd (searchEmbeddings E q n w)) = qaHistory w"
  by (simp_all add: searchEmbeddings_def Let_def)

lemma searchEmbeddings_calls:
  "calls (snd (searchEmbeddings E q n w)) =
     calls w @ (if take n (filter (\<lambda>e. tsmatch E (chunkText e) q) (embeddings w)) = []
                then [SelectEmbeddingsFts q n, SelectEmbeddingsIlike q n]
                else [SelectEmbeddingsFts q n])"
  by (simp add: searchEmbeddings_def Let_def)

lemma searchEmbeddings_empty_iff:
  assumes "0 < n"
  shows "fst (searchEmbeddings E q n w) = [] \<longleftrightarrow>
           (\<forall>e\<in>set (embeddings w).
              \<not> tsmatch E (chunkText e) q \<and> \<not> ilike E (chunkText e) (like_pattern q))"
  using assms by (auto simp: searchEmbeddings_def Let_def filter_empty_conv)

lemma getDocuments_tables [simp]:
  "documents (snd (getDocuments E f w)) = documents w"
  "documentPages (snd (getDocuments E f w)) = documentPages w"
  "embeddings (snd (getDocuments E f w)) = embeddings w"
  "qaHistory (snd (getDocuments E f w)) = qaHistory w"
  "calls (snd (getDocuments E f w)) = calls w @ [SelectDocuments f]"
  by (simp_all add: getDocuments_def Let_def)

lemma getDocuments_rows:
  "documents w' = documents w \<Longrightarrow> fst (getDocuments E f w') = fst (getDocuments E f w)"
  by (simp add: getDocuments_def Let_def)

lemma getDocumentPages_tables [simp]:
  "documents (snd (getDocumentPages i w)) = documents w"
  "documentPages (snd (getDocumentPages i w)) = documentPages w"
  "embeddings (snd (getDocumentPages i w)) = embeddings w"
  "qaHistory (snd (getDocumentPages i w)) = qaHistory w"
  "calls (snd (getDocumentPages i w)) = calls w @ [SelectPages i]"
  by (simp_all add: getDocumentPages_def)

lemma promise_all_length: "length (fst (promise_all f xs w)) = length xs"
  by (induction xs arbitrary: w) (simp_all add: split_def Let_def)

lemma promise_all_calls:
  assumes "\<And>x w. calls (snd (f x w)) = calls w @ [g x]"
  shows "calls (snd (promise_all f xs w)) = calls w @ map g xs"
  by (induction xs arbitrary: w) (simp_all add: split_def Let_def assms)

lemma fallbackResult_calls: "calls (snd (fallbackResult d w)) = calls w @ [SelectPages (id_d d)]"
  by (simp add: fallbackResult_def split_def Let_def)

lemma searchResult_calls:
  "calls (snd (searchResult e w)) = calls w @ [SelectDocument (documentId_e e)]"
  by (simp add: searchResult_def split_def Let_def)

lemma withDocumentTitle_calls:
  "calls (snd (withDocumentTitle e w)) = calls w @ [SelectDocument (documentId_e e)]"
  by (simp add: withDocumentTitle_def split_def Let_def)

lemma generated_select_pages [simp]: "generated (map (\<lambda>d. SelectPages (f d)) ds) = []"
  by (induction ds) simp_all

lemma generated_select_document [simp]: "generated (map (\<lambda>e. SelectDocument (f e)) es) = []"
  by (induction es) simp_all

lemma collectContent_calls:
  "calls (snd (collectContent ds w)) = calls w @ map (\<lambda>d. SelectPages (id_d d)) ds"
  by (induction ds arbitrary: w) (simp_all add: split_def Let_def)

lemma collectContent_rows:
  "documentPages w' = documentPages w \<Longrightarrow>
     fst (collectContent ds w') = fst (collectContent ds w)"
proof (induction ds arbitrary: w w')
  case Nil
  show ?case by simp
next
  case (Cons d ds)
  have pages: "fst (getDocumentPages (id_d d) w') = fst (getDocumentPages (id_d d) w)"
    using Cons.prems by (simp add: getDocumentPages_def)
  have rest: "fst (collectContent ds (snd (getDocumentPages (id_d d) w'))) =
        fst (collectContent ds (snd (getDocumentPages (id_d d) w)))"
    by (rule Cons.IH) (simp add: Cons.prems)
  show ?case
    by (simp add: split_def Let_def pages rest split: option.splits)
qed

lemma collectContent_ids:
  "set (map documentId_c (fst (collectContent ds w))) \<subseteq> set (map id_d ds)"
  by (induction ds arbitrary: w) (auto simp: split_def Let_def split: option.splits if_splits)

lemma latest_first_mset: "mset (latest_first ds) = mset ds"
  by (simp add: latest_first_def)

lemma latest_first_sorted:
  "sorted_wrt (\<lambda>a b. uploadDate b \<le> uploadDate a) (latest_first ds)"
proof -
  have "sorted (map (\<lambda>d. - uploadDate d) (latest_first ds))"
    by (simp add: latest_first_def)
  then show ?thesis
    by (simp add: sorted_wrt_map)
qed

lemma sorted_take_drop:
  assumes "sorted_wrt R xs"
  shows "\<forall>a\<in>set (take n xs). \<forall>b\<in>set (drop n xs). R a b"
proof -
  from assms have "sorted_wrt R (take n xs @ drop n xs)" by simp
  then show ?thesis
    unfolding sorted_wrt_append by blast
qed

lemma answerFrom_calls:
  "\<exists>cs. calls (snd (answerFrom E c q ids w)) = calls w @ Generate (CorpusAskPrompt c q) # cs
        \<and> generated cs = []"
  by (simp add: answerFrom_def Let_def createQaHistory_def
      split: outcome.splits content_block.splits option.splits)

lemma getDocuments_all:
  "fst (getDocuments E no_filters w) = latest_first (documents w)"
  by (simp add: getDocuments_def conditions_def no_filters_def Let_def)

lemma answerFrom_throws:
  assumes "\<forall>p. messages_create E p = Returns (TextBlock t)"
    and "jsonMatch t = Some m"
    and "JSON_parse E m = Throws e"
  shows "fst (answerFrom E c q ids w) = error_response 500 ''Failed to answer question''"
  using assms by (simp add: answerFrom_def Let_def)

text \<open>
  A processing run keeps the identifiers of the documents, and it inserts pages and
  chunks only for a document it has found: a store whose pages and chunks all reference
  stored documents remains one.
\<close>

lemma ids_update:
  assumes "\<And>d. id_d (f d) = id_d d"
  shows "map id_d (map (\<lambda>d. if id_d d = i then f d else d) ds) = map id_d ds"
  by (induction ds) (simp_all add: assms)

lemma ids_updateDocument: "map id_d (documents (updateDocument i us w)) = map id_d (documents w)"
  unfolding updateDocument_fields by (rule ids_update) simp

lemma ids_processBody:
  "map id_d (documents (world_of (processBody E did w))) = map id_d (documents w)"
  unfolding processBody_documents by (rule ids_update) simp

lemma ids_processDocument:
  "map id_d (documents (processDocument E did w)) = map id_d (documents w)"
proof (cases "processBody E did w")
  case (Gone w')
  with ids_processBody [of E did w] show ?thesis
    by (simp add: processDocument_def)
next
  case (Failed e w')
  with ids_processBody [of E did w] show ?thesis
    by (simp add: processDocument_def ids_updateDocument del: updateDocument_fields)
next
  case (Extracted x t w')
  with ids_processBody [of E did w] show ?thesis
    by (simp add: processDocument_def ids_updateDocument del: updateDocument_fields)
qed

lemma references_ok_ids:
  "references_ok w \<longleftrightarrow>
     (\<forall>p\<in>set (documentPages w). documentId_p p \<in> set (map id_d (documents w)))
     \<and> (\<forall>e\<in>set (embeddings w). documentId_e e \<in> set (map id_d (documents w)))"
  unfolding references_ok_def by (simp add: image_iff) metis

lemma references_ok_processDocument:
  assumes ok: "references_ok w"
  shows "references_ok (processDocument E did w)"
proof -
  from processDocument_rows [of E did w] obtain ts where
    emb: "embeddings (processDocument E did w) =
            embeddings w @ map (\<lambda>(j, t). chunk_row did j t)
              (filter (\<lambda>(j, t). truthy (trim t)) (enumerate 0 ts))"
    and pgs: "documentPages (processDocument E did w) =
            documentPages w @ map (\<lambda>(j, t). page_row did j t)
              (filter (\<lambda>(j, t). truthy (trim t)) (enumerate 0 ts))"
    by blast
  show ?thesis
  proof (cases "find (\<lambda>d. id_d d = did) (documents w)")
    case None
    from processBody_gone [OF None, of E] obtain w' where
      "processBody E did w = Gone w'" "embeddings w' = embeddings w"
      "documentPages w' = documentPages w" by blast
    then have "embeddings (processDocument E did w) = embeddings w"
      "documentPages (processDocument E did w) = documentPages w"
      by (simp_all add: processDocument_def)
    with ok show ?thesis
      unfolding references_ok_ids ids_processDocument by simp
  next
    case (Some doc)
    then have "doc \<in> set (documents w)" "id_d doc = did"
      by (auto simp: find_Some_iff)
    then have "did \<in> set (map id_d (documents w))"
      by auto
    with ok show ?thesis
      unfolding references_ok_ids ids_processDocument emb pgs
      by (auto simp: chunk_row_def page_row_def)
  qed
qed

lemmas eval_defs =
  example_env_def example_world_def example_document_def parsed_pdf_def pdf_mime_def
  processDocument_def processBody_def updateDocument_def getDocument_def classify_def
  record_call_def extractText_def extractPdf_def extraction_init_def pdfCatch_def
  splitPages_def slice_def ceil_div_def Let_def trim_def truthy_def isWhiteSpace_def
  ascii_def createDocumentPage_def createEmbedding_def page_row_def chunk_row_def
  status_processing_def status_completed_def status_failed_def status_pending_def
  upt_small

lemmas route_defs =
  processed_world_def search_route_def searchEmbeddings_def getDocuments_def conditions_def
  like_pattern_def latest_first_def fallbackResult_def searchResult_def getDocumentPages_def
  or_else_def or_null_def obj_def results_response_def json_response_def error_response_def
  no_filters_def new_calls_def words_of_def split_def delete_route_def deleteDocument_def
  on_delete_cascade_def qa_ask_def no_documents_response_def no_text_response_def
  answerFrom_def withDocumentTitle_def source_block_def separator_def jsonMatch_def
  createQaHistory_def unique_def document_ask_def has_text_def page_block_def

section \<open>Chunks and pages written by a processing run\<close>

text \<open>
  Claim C2, as amended. In a run that finds the document and downloads its file, and
  that starts with no chunk of the document stored, every page text that is not blank
  after trimming gets exactly one chunk: the chunk at the page's 0-based position \<open>i\<close> in
  extraction order has page number \<open>i + 1\<close>, the first 2000 code units of the page text
  as its text, and the token count \<open>ceil (pageText.length / 4)\<close>, computed from the
  length of the whole page text, not of the chunk text.
\<close>

theorem chunk_per_indexed_page:
  assumes found: "find (\<lambda>d. id_d d = did) (documents w) = Some doc"
    and dl: "download E (filePath doc) = Returns buf"
    and fresh: "\<forall>e\<in>set (embeddings w). documentId_e e \<noteq> did"
    and i: "i < length (pageTexts (extractText E doc buf))"
    and nb: "truthy (trim (pageTexts (extractText E doc buf) ! i))"
  shows "filter (\<lambda>e. documentId_e e = did \<and> chunkIndex e = i)
           (embeddings (processDocument E did w)) =
         [\<lparr>documentId_e = did, pageNumber_e = Some (i + 1),
           chunkText = take 2000 (pageTexts (extractText E doc buf) ! i),
           chunkIndex = i,
           tokenCount = ceil_div (length (pageTexts (extractText E doc buf) ! i)) 4\<rparr>]"
proof -
  let ?ts = "pageTexts (extractText E doc buf)"
  let ?P = "\<lambda>e. documentId_e e = did \<and> chunkIndex e = i"
  from processBody_found [OF found dl] obtain t w'
    where body: "processBody E did w = Extracted (extractText E doc buf) t w'"
      and emb: "embeddings w' = embeddings (indexPages did 0 ?ts w)"
    by blast
  have final: "embeddings (processDocument E did w) = embeddings (indexPages did 0 ?ts w)"
    by (simp add: processDocument_def body emb)
  have old: "filter ?P (embeddings w) = []"
    using fresh by (auto simp: filter_empty_conv)
  have sel: "filter (\<lambda>(j, t). j = i) (filter (\<lambda>(j, t). truthy (trim t)) (enumerate 0 ?ts)) =
             [(i, ?ts ! i)]"
  proof -
    have "filter (\<lambda>(j, t). j = i) (filter (\<lambda>(j, t). truthy (trim t)) (enumerate 0 ?ts)) =
          filter (\<lambda>(j, t). truthy (trim t)) (filter (\<lambda>(j, t). j = i) (enumerate 0 ?ts))"
      by (simp add: conj_commute split_def)
    also have "\<dots> = [(i, ?ts ! i)]"
      using i nb by (simp add: filter_enumerate_index)
    finally show ?thesis .
  qed
  have new: "filter ?P (map (\<lambda>(j, t). chunk_row did j t)
                 (filter (\<lambda>(j, t). truthy (trim t)) (enumerate 0 ?ts))) =
             [chunk_row did i (?ts ! i)]"
  proof -
    let ?f = "\<lambda>(j, t). chunk_row did j t"
    let ?xs = "filter (\<lambda>(j, t). truthy (trim t)) (enumerate 0 ?ts)"
    have comp: "?P \<circ> ?f = (\<lambda>(j, t). j = i)"
      by (auto simp: chunk_row_def fun_eq_iff)
    have "filter ?P (map ?f ?xs) = map ?f (filter (?P \<circ> ?f) ?xs)"
      by (rule filter_map)
    also have "\<dots> = map ?f (filter (\<lambda>(j, t). j = i) ?xs)"
      by (simp only: comp)
    also have "\<dots> = map ?f [(i, ?ts ! i)]"
      by (simp only: sel)
    finally show ?thesis by simp
  qed
  show ?thesis
    unfolding final indexPages_embeddings filter_append old new
    by (simp add: chunk_row_def slice_0)
qed

theorem chunk_per_indexed_page_witness:
  "filter (\<lambda>e. documentId_e e = 1 \<and> chunkIndex e = 0)
     (embeddings (processDocument (example_env (parsed_pdf (ascii ''ab'') 1) (Throws NonError)) 1
        (example_world [example_document 1 pdf_mime 0]))) =
   [\<lparr>documentId_e = 1, pageNumber_e = Some 1, chunkText = ascii ''ab'', chunkIndex = 0,
     tokenCount = 1\<rparr>]"
  using chunk_per_indexed_page [of 1 "example_world [example_document 1 pdf_mime 0]"
      "example_document 1 pdf_mime 0" "example_env (parsed_pdf (ascii ''ab'') 1) (Throws NonError)"
      "[]" 0]
  by (simp add: example_env_def example_world_def example_document_def parsed_pdf_def pdf_mime_def
      extractText_def extractPdf_def splitPages_def slice_def ceil_div_def Let_def trim_def
      truthy_def isWhiteSpace_def ascii_def)

text \<open>
  Claim C2 as stated fails on a page of 2001 code units: the stored chunk has 2000 code
  units, so the claim's token count is 500, and the stored token count is 501.
\<close>

theorem token_count_counterexample:
  "map tokenCount (embeddings (processDocument
      (example_env (parsed_pdf (replicate 2001 0x61) 1) (Throws NonError)) 1
      (example_world [example_document 1 pdf_mime 0]))) = [501]
   \<and> map (length \<circ> chunkText) (embeddings (processDocument
      (example_env (parsed_pdf (replicate 2001 0x61) 1) (Throws NonError)) 1
      (example_world [example_document 1 pdf_mime 0]))) = [2000]
   \<and> ceil_div 2000 4 = 500"
  by (simp add: eval_defs)

text \<open>
  Claim C3, as amended. After a processing run that starts with no chunk of the document
  stored, every chunk of the document has a text of at most 2000 code units, and the
  chunk indices, in insertion order, are strictly increasing, so none repeats. When the
  run finds the document and downloads its file they are exactly the 0-based positions of
  the page texts that are not blank after trimming: a blank page text leaves its index
  unused. They are \<open>0, 1, \<dots>, k - 1\<close> whenever no blank page text comes before a
  non-blank one.
\<close>

theorem chunk_bound_and_indices:
  assumes fresh: "\<forall>e\<in>set (embeddings w). documentId_e e \<noteq> did"
  shows "let cs = filter (\<lambda>e. documentId_e e = did) (embeddings (processDocument E did w))
         in (\<forall>c\<in>set cs. length (chunkText c) \<le> 2000)
            \<and> sorted_wrt (<) (map chunkIndex cs)
            \<and> distinct (map chunkIndex cs)
            \<and> (\<forall>doc buf.
                  find (\<lambda>d. id_d d = did) (documents w) = Some doc
                    \<longrightarrow> download E (filePath doc) = Returns buf
                    \<longrightarrow> (let ts = pageTexts (extractText E doc buf)
                         in map chunkIndex cs =
                              filter (\<lambda>i. truthy (trim (ts ! i))) [0..<length ts]
                            \<and> ((\<forall>i j. i < j \<longrightarrow> j < length ts \<longrightarrow> truthy (trim (ts ! j))
                                    \<longrightarrow> truthy (trim (ts ! i)))
                                 \<longrightarrow> map chunkIndex cs = [0..<length cs])))"
proof -
  let ?cs = "filter (\<lambda>e. documentId_e e = did) (embeddings (processDocument E did w))"
  from processDocument_rows [of E did w] obtain ts where
    emb: "embeddings (processDocument E did w) =
            embeddings w @ map (\<lambda>(j, t). chunk_row did j t)
              (filter (\<lambda>(j, t). truthy (trim t)) (enumerate 0 ts))"
    and ts: "\<forall>doc buf. find (\<lambda>d. id_d d = did) (documents w) = Some doc
            \<longrightarrow> download E (filePath doc) = Returns buf
            \<longrightarrow> ts = pageTexts (extractText E doc buf)"
    by blast
  let ?xs = "filter (\<lambda>(j, t). truthy (trim t)) (enumerate 0 ts)"
  have cs: "?cs = map (\<lambda>(j, t). chunk_row did j t) ?xs"
    unfolding emb by (rule own_chunks [OF fresh])
  have idx: "map chunkIndex ?cs = map fst ?xs"
    unfolding cs by (rule chunk_indices)
  have bound: "\<forall>c\<in>set ?cs. length (chunkText c) \<le> 2000"
    unfolding cs by (auto simp: chunk_text_bound)
  have sorted: "sorted_wrt (<) (map chunkIndex ?cs)"
    unfolding idx by (rule sorted_positions)
  then have dist: "distinct (map chunkIndex ?cs)"
    by (simp add: strict_sorted_iff)
  have pos: "map chunkIndex ?cs = filter (\<lambda>i. truthy (trim (ts ! i))) [0..<length ts]"
    unfolding idx using positions_enumerate [of "\<lambda>t. truthy (trim t)" 0 ts] by simp
  have dense: "map chunkIndex ?cs = [0..<length ?cs]"
    if "\<forall>i j. i < j \<longrightarrow> j < length ts \<longrightarrow> truthy (trim (ts ! j)) \<longrightarrow> truthy (trim (ts ! i))"
  proof -
    from filter_prefix_upt [of "length ts" "\<lambda>i. truthy (trim (ts ! i))", OF that]
    have "map chunkIndex ?cs = [0..<length (map chunkIndex ?cs)]"
      unfolding pos .
    then show ?thesis by simp
  qed
  have "map chunkIndex ?cs =
          filter (\<lambda>i. truthy (trim (pageTexts (extractText E doc buf) ! i)))
            [0..<length (pageTexts (extractText E doc buf))]
        \<and> ((\<forall>i j. i < j \<longrightarrow> j < length (pageTexts (extractText E doc buf))
                \<longrightarrow> truthy (trim (pageTexts (extractText E doc buf) ! j))
                \<longrightarrow> truthy (trim (pageTexts (extractText E doc buf) ! i)))
             \<longrightarrow> map chunkIndex ?cs = [0..<length ?cs])"
    if "find (\<lambda>d. id_d d = did) (documents w) = Some doc"
      and "download E (filePath doc) = Returns buf" for doc buf
  proof -
    from ts that have "ts = pageTexts (extractText E doc buf)" by blast
    with pos dense show ?thesis by blast
  qed
  with bound sorted dist show ?thesis
    unfolding Let_def by blast
qed

theorem chunk_bound_and_indices_witness:
  "map chunkIndex (filter (\<lambda>e. documentId_e e = 1)
     (embeddings (processDocument (example_env (parsed_pdf (ascii ''abcd'') 2) (Throws NonError)) 1
        (example_world [example_document 1 pdf_mime 0])))) = [0, 1]"
  using chunk_bound_and_indices [of "example_world [example_document 1 pdf_mime 0]" 1
      "example_env (parsed_pdf (ascii ''abcd'') 2) (Throws NonError)"]
  by (simp add: eval_defs upt_small)

text \<open>
  Claim C3 as stated fails on a PDF of three pages with the text \<open>a b\<close>: the second
  slice is a space, it is skipped, and the chunk indices are 0 and 2.
\<close>

theorem chunk_index_gap_counterexample:
  "map chunkIndex (embeddings (processDocument
      (example_env (parsed_pdf (ascii ''a b'') 3) (Throws NonError)) 1
      (example_world [example_document 1 pdf_mime 0]))) = [0, 2]
   \<and> map documentId_e (embeddings (processDocument
      (example_env (parsed_pdf (ascii ''a b'') 3) (Throws NonError)) 1
      (example_world [example_document 1 pdf_mime 0]))) = [1, 1]"
  by (simp add: eval_defs upt_small)

text \<open>
  Claim C4, as amended. After a processing run that starts with no page of the document
  stored, the page numbers of the document's pages, in insertion order, are strictly
  increasing, so they are unique. When the run finds the document and downloads its file
  they are exactly the 1-based positions of the page texts that are not blank after
  trimming; they are \<open>1, 2, \<dots>, k\<close> whenever no blank page text comes before a non-blank
  one.
\<close>

theorem page_numbers_increasing:
  assumes fresh: "\<forall>p\<in>set (documentPages w). documentId_p p \<noteq> did"
  shows "let ps = filter (\<lambda>p. documentId_p p = did) (documentPages (processDocument E did w))
         in sorted_wrt (<) (map pageNumber_p ps)
            \<and> distinct (map pageNumber_p ps)
            \<and> (\<forall>doc buf.
                  find (\<lambda>d. id_d d = did) (documents w) = Some doc
                    \<longrightarrow> download E (filePath doc) = Returns buf
                    \<longrightarrow> (let ts = pageTexts (extractText E doc buf)
                         in map pageNumber_p ps =
                              map Suc (filter (\<lambda>i. truthy (trim (ts ! i))) [0..<length ts])
                            \<and> ((\<forall>i j. i < j \<longrightarrow> j < length ts \<longrightarrow> truthy (trim (ts ! j))
                                    \<longrightarrow> truthy (trim (ts ! i)))
                                 \<longrightarrow> map pageNumber_p ps = [1..<Suc (length ps)])))"
proof -
  let ?ps = "filter (\<lambda>p. documentId_p p = did) (documentPages (processDocument E did w))"
  from processDocument_rows [of E did w] obtain ts where
    pgs: "documentPages (processDocument E did w) =
            documentPages w @ map (\<lambda>(j, t). page_row did j t)
              (filter (\<lambda>(j, t). truthy (trim t)) (enumerate 0 ts))"
    and ts: "\<forall>doc buf. find (\<lambda>d. id_d d = did) (documents w) = Some doc
            \<longrightarrow> download E (filePath doc) = Returns buf
            \<longrightarrow> ts = pageTexts (extractText E doc buf)"
    by blast
  let ?xs = "filter (\<lambda>(j, t). truthy (trim t)) (enumerate 0 ts)"
  have ps: "?ps = map (\<lambda>(j, t). page_row did j t) ?xs"
    unfolding pgs by (rule own_pages [OF fresh])
  have num: "map pageNumber_p ?ps = map Suc (map fst ?xs)"
    unfolding ps by (rule page_numbers)
  have "sorted_wrt (<) (map fst ?xs)"
    by (rule sorted_positions)
  then have sorted: "sorted_wrt (<) (map pageNumber_p ?ps)"
    unfolding num by (simp add: sorted_wrt_map)
  then have dist: "distinct (map pageNumber_p ?ps)"
    by (simp add: strict_sorted_iff)
  have pos: "map pageNumber_p ?ps =
               map Suc (filter (\<lambda>i. truthy (trim (ts ! i))) [0..<length ts])"
    unfolding num using positions_enumerate [of "\<lambda>t. truthy (trim t)" 0 ts] by simp
  have dense: "map pageNumber_p ?ps = [1..<Suc (length ?ps)]"
    if "\<forall>i j. i < j \<longrightarrow> j < length ts \<longrightarrow> truthy (trim (ts ! j)) \<longrightarrow> truthy (trim (ts ! i))"
  proof -
    let ?f = "filter (\<lambda>i. truthy (trim (ts ! i))) [0..<length ts]"
    from filter_prefix_upt [of "length ts" "\<lambda>i. truthy (trim (ts ! i))", OF that]
    have f: "?f = [0..<length ?f]" .
    have len: "length ?ps = length ?f"
      using pos by (metis length_map)
    have "map pageNumber_p ?ps = map Suc [0..<length ?f]"
      using pos f by simp
    also have "\<dots> = [1..<Suc (length ?f)]"
      by (simp only: map_Suc_upt One_nat_def)
    finally show ?thesis
      by (simp only: len)
  qed
  have "map pageNumber_p ?ps =
          map Suc (filter (\<lambda>i. truthy (trim (pageTexts (extractText E doc buf) ! i)))
            [0..<length (pageTexts (extractText E doc buf))])
        \<and> ((\<forall>i j. i < j \<longrightarrow> j < length (pageTexts (extractText E doc buf))
                \<longrightarrow> truthy (trim (pageTexts (extractText E doc buf) ! j))
                \<longrightarrow> truthy (trim (pageTexts (extractText E doc buf) ! i)))
             \<longrightarrow> map pageNumber_p ?ps = [1..<Suc (length ?ps)])"
    if "find (\<lambda>d. id_d d = did) (documents w) = Some doc"
      and "download E (filePath doc) = Returns buf" for doc buf
  proof -
    from ts that have "ts = pageTexts (extractText E doc buf)" by blast
    with pos dense show ?thesis by blast
  qed
  with sorted dist show ?thesis
    unfolding Let_def by blast
qed

theorem page_numbers_increasing_witness:
  "map pageNumber_p (filter (\<lambda>p. documentId_p p = 1)
     (documentPages (processDocument (example_env (parsed_pdf (ascii ''abcd'') 2) (Throws NonError)) 1
        (example_world [example_document 1 pdf_mime 0])))) = [1, 2]"
  using page_numbers_increasing [of "example_world [example_document 1 pdf_mime 0]" 1
      "example_env (parsed_pdf (ascii ''abcd'') 2) (Throws NonError)"]
  by (simp add: eval_defs upt_small)

text \<open>
  Claim C4 as stated fails on the same PDF (three pages, text \<open>a b\<close>): the extraction
  succeeds, the document is completed, and its page numbers are 1 and 3.
\<close>

theorem page_number_gap_counterexample:
  "map pageNumber_p (documentPages (processDocument
      (example_env (parsed_pdf (ascii ''a b'') 3) (Throws NonError)) 1
      (example_world [example_document 1 pdf_mime 0]))) = [1, 3]
   \<and> map documentId_p (documentPages (processDocument
      (example_env (parsed_pdf (ascii ''a b'') 3) (Throws NonError)) 1
      (example_world [example_document 1 pdf_mime 0]))) = [1, 1]
   \<and> map processingStatus (documents (processDocument
      (example_env (parsed_pdf (ascii ''a b'') 3) (Throws NonError)) 1
      (example_world [example_document 1 pdf_mime 0]))) = [status_completed]"
  by (simp add: eval_defs upt_small)

section \<open>An unparseable PDF\<close>

text \<open>
  Claim C6. When the document is found, is a PDF, its file is downloaded and the parsing
  throws, the extraction yields exactly one page text, the fixed failure text; a run that
  starts with no page of the document stored leaves exactly one page of it, number 1, with
  that text; and the run ends with the document marked completed (which is not the failed
  status), its full text the failure text and its page count 1.
\<close>

theorem unparseable_pdf_completes:
  assumes found: "find (\<lambda>d. id_d d = did) (documents w) = Some doc"
    and pdf: "fileType doc = pdf_mime"
    and dl: "download E (filePath doc) = Returns buf"
    and throws: "parsingThrows E buf"
    and fresh: "\<forall>p\<in>set (documentPages w). documentId_p p \<noteq> did"
  shows "pageTexts (extractText E doc buf) = [pdf_failure_text]
         \<and> filter (\<lambda>p. documentId_p p = did) (documentPages (processDocument E did w)) =
             [\<lparr>documentId_p = did, pageNumber_p = 1, pageText = Some pdf_failure_text\<rparr>]
         \<and> (\<exists>t. find (\<lambda>d. id_d d = did) (documents (processDocument E did w)) =
                  Some (doc\<lparr>processingStatus := status_completed,
                            processedDate := Some (now E),
                            fullText := Some pdf_failure_text,
                            pageCount := Some 1,
                            documentType := Some t\<rparr>))
         \<and> status_completed \<noteq> status_failed"
proof -
  have x: "extractText E doc buf =
             \<lparr>extractedText = pdf_failure_text, pageCount_x = 1, pageTexts = [pdf_failure_text]\<rparr>"
    using pdf throws by (simp add: extractText_def extractPdf_throws)
  from processBody_found [OF found dl] obtain t w'
    where body: "processBody E did w = Extracted (extractText E doc buf) t w'"
      and pgs: "documentPages w' =
                  documentPages (indexPages did 0 (pageTexts (extractText E doc buf)) w)"
      and docs: "documents w' =
                  map (\<lambda>d. if id_d d = did then d\<lparr>processingStatus := status_processing\<rparr> else d)
                    (documents w)"
    by blast
  have old: "filter (\<lambda>p. documentId_p p = did) (documentPages w) = []"
    using fresh by (auto simp: filter_empty_conv)
  have pages: "filter (\<lambda>p. documentId_p p = did) (documentPages (processDocument E did w)) =
             [\<lparr>documentId_p = did, pageNumber_p = 1, pageText = Some pdf_failure_text\<rparr>]"
    by (simp add: processDocument_def body pgs x trim_failure_text old page_row_def)
  have "find (\<lambda>d. id_d d = did) (documents (processDocument E did w)) =
          Some (doc\<lparr>processingStatus := status_completed,
                    processedDate := Some (now E),
                    fullText := Some pdf_failure_text,
                    pageCount := Some 1,
                    documentType := Some t\<rparr>)"
  proof -
    have before: "find (\<lambda>d. id_d d = did) (documents w') =
                    Some (doc\<lparr>processingStatus := status_processing\<rparr>)"
      unfolding docs by (simp add: find_update found)
    show ?thesis
      by (simp add: processDocument_def body x find_update before)
  qed
  with x pages status_distinct show ?thesis by auto
qed

theorem unparseable_pdf_completes_witness:
  "map pageText (documentPages (processDocument
      (example_env (Throws (Error (ascii ''Invalid PDF structure''))) (Throws NonError)) 1
      (example_world [example_document 1 pdf_mime 0]))) = [Some pdf_failure_text]
   \<and> map processingStatus (documents (processDocument
      (example_env (Throws (Error (ascii ''Invalid PDF structure''))) (Throws NonError)) 1
      (example_world [example_document 1 pdf_mime 0]))) = [status_completed]"
  using unparseable_pdf_completes [of 1 "example_world [example_document 1 pdf_mime 0]"
      "example_document 1 pdf_mime 0"
      "example_env (Throws (Error (ascii ''Invalid PDF structure''))) (Throws NonError)" "[]"]
  by (simp add: eval_defs parsingThrows_def pdf_failure_text_def)

section \<open>Reprocessing\<close>

text \<open>
  Claim C10. When the document exists, the reset of the reprocess route changes, in the
  row of that document, exactly the columns processingStatus (to pending), fullText,
  aiSummary, keyTopics, sentiment and errorMessage (to null); every other column of it and
  every other document is as before. The run that follows only sets processingStatus to
  processing until its last update, so before that update every other column, among them
  documentType, pageCount, title, filePath, fileSizeBytes and processedDate, still has its
  previous value.
\<close>

theorem reprocess_frame:
  assumes found: "find (\<lambda>d. id_d d = i) (documents w) = Some doc"
  shows "documents (snd (reprocess_route i w)) =
           map (\<lambda>d. if id_d d = i
                     then d\<lparr>processingStatus := status_pending, fullText := None,
                             aiSummary := None, keyTopics := None, sentiment := None,
                             errorMessage := None\<rparr>
                     else d) (documents w)
         \<and> documents (world_of (processBody E i (snd (reprocess_route i w)))) =
           map (\<lambda>d. if id_d d = i
                     then d\<lparr>processingStatus := status_processing, fullText := None,
                             aiSummary := None, keyTopics := None, sentiment := None,
                             errorMessage := None\<rparr>
                     else d) (documents w)"
proof -
  have reset: "documents (snd (reprocess_route i w)) =
           map (\<lambda>d. if id_d d = i
                     then d\<lparr>processingStatus := status_pending, fullText := None,
                             aiSummary := None, keyTopics := None, sentiment := None,
                             errorMessage := None\<rparr>
                     else d) (documents w)"
    using found by (simp add: reprocess_route_def Let_def split_def)
  have "documents (world_of (processBody E i (snd (reprocess_route i w)))) =
           map (\<lambda>d. if id_d d = i
                     then d\<lparr>processingStatus := status_processing, fullText := None,
                             aiSummary := None, keyTopics := None, sentiment := None,
                             errorMessage := None\<rparr>
                     else d) (documents w)"
    unfolding processBody_documents reset by (induction "documents w") auto
  with reset show ?thesis by simp
qed

theorem reprocess_frame_witness:
  "map processingStatus (documents (snd (reprocess_route 1
      (example_world [(example_document 1 pdf_mime 0)\<lparr>documentType := Some (ascii ''other''),
         pageCount := Some 3, processingStatus := status_completed\<rparr>])))) = [status_pending]
   \<and> map documentType (documents (world_of (processBody
      (example_env (parsed_pdf (ascii ''abcd'') 2) (Throws NonError)) 1
      (snd (reprocess_route 1
      (example_world [(example_document 1 pdf_mime 0)\<lparr>documentType := Some (ascii ''other''),
         pageCount := Some 3, processingStatus := status_completed\<rparr>])))))) =
      [Some (ascii ''other'')]
   \<and> map pageCount (documents (world_of (processBody
      (example_env (parsed_pdf (ascii ''abcd'') 2) (Throws NonError)) 1
      (snd (reprocess_route 1
      (example_world [(example_document 1 pdf_mime 0)\<lparr>documentType := Some (ascii ''other''),
         pageCount := Some 3, processingStatus := status_completed\<rparr>])))))) = [Some 3]"
  using reprocess_frame [of 1
      "example_world [(example_document 1 pdf_mime 0)\<lparr>documentType := Some (ascii ''other''),
         pageCount := Some 3, processingStatus := status_completed\<rparr>]"
      "(example_document 1 pdf_mime 0)\<lparr>documentType := Some (ascii ''other''),
         pageCount := Some 3, processingStatus := status_completed\<rparr>"
      "example_env (parsed_pdf (ascii ''abcd'') 2) (Throws NonError)"]
  by (simp add: example_world_def example_document_def)

section \<open>Deleting a document\<close>

text \<open>
  Claim C7. The delete route answers 204 and removes the document row and, the
  database cascading the deletion, every page row and every chunk row of that document:
  the three tables are the old ones without the rows of the deleted id, so no page or
  chunk references it afterwards, and the rows of other documents stay. A store in which
  every page and chunk references a stored document remains one.
\<close>

theorem delete_cascades:
  "fst (delete_route i w) = Response 204 None
   \<and> documents (snd (delete_route i w)) = filter (\<lambda>d. id_d d \<noteq> i) (documents w)
   \<and> documentPages (snd (delete_route i w)) =
       filter (\<lambda>p. documentId_p p \<noteq> i) (documentPages w)
   \<and> embeddings (snd (delete_route i w)) = filter (\<lambda>e. documentId_e e \<noteq> i) (embeddings w)
   \<and> (\<forall>d\<in>set (documents (snd (delete_route i w))). id_d d \<noteq> i)
   \<and> (\<forall>p\<in>set (documentPages (snd (delete_route i w))). documentId_p p \<noteq> i)
   \<and> (\<forall>e\<in>set (embeddings (snd (delete_route i w))). documentId_e e \<noteq> i)
   \<and> (references_ok w \<longrightarrow> references_ok (snd (delete_route i w)))"
proof -
  have tables:
    "documents (snd (delete_route i w)) = filter (\<lambda>d. id_d d \<noteq> i) (documents w)"
    "documentPages (snd (delete_route i w)) =
       filter (\<lambda>p. documentId_p p \<noteq> i) (documentPages w)"
    "embeddings (snd (delete_route i w)) = filter (\<lambda>e. documentId_e e \<noteq> i) (embeddings w)"
    by (simp_all add: delete_route_def deleteDocument_def on_delete_cascade_def)
  have refs: "references_ok (snd (delete_route i w))" if "references_ok w"
    using that unfolding references_ok_def tables by fastforce
  from tables refs show ?thesis
    by (simp add: delete_route_def)
qed

theorem delete_cascades_witness:
  "documents (snd (delete_route 1 (processed_world (ascii ''cat'') 1))) = []
   \<and> documentPages (snd (delete_route 1 (processed_world (ascii ''cat'') 1))) = []
   \<and> embeddings (snd (delete_route 1 (processed_world (ascii ''cat'') 1))) = []
   \<and> map pageText (documentPages (processed_world (ascii ''cat'') 1)) = [Some (ascii ''cat'')]"
  using delete_cascades [of 1 "processed_world (ascii ''cat'') 1"]
  by (simp add: route_defs eval_defs)

section \<open>Corpus search\<close>

text \<open>
  Claim C5, as amended. For a non-empty query, the document-title fallback runs (the
  route queries the documents table) if and only if \<^verbatim>\<open>searchEmbeddings\<close> returns no
  row, that is, if and only if no chunk matches the full-text query and no chunk text
  matches the \<^verbatim>\<open>ILIKE\<close> pattern of the query: an empty full-text result alone does
  not start it. When it runs, the response holds one pseudo-result for each of the first
  10 matching documents, so at most 10.
\<close>

theorem title_fallback_runs:
  assumes q: "truthy q"
  shows "((\<exists>f. SelectDocuments f \<in> set (new_calls w (snd (search_route E (Some q) w))))
            \<longleftrightarrow> fst (searchEmbeddings E q 20 w) = [])
         \<and> (fst (searchEmbeddings E q 20 w) = [] \<longleftrightarrow>
              (\<forall>e\<in>set (embeddings w).
                 \<not> tsmatch E (chunkText e) q \<and> \<not> ilike E (chunkText e) (like_pattern q)))
         \<and> (fst (searchEmbeddings E q 20 w) = [] \<longrightarrow>
              (\<exists>results. fst (search_route E (Some q) w) = results_response results
                 \<and> length results =
                     min 10 (length (fst (getDocuments E (no_filters\<lparr>search_f := Some q\<rparr>) w)))
                 \<and> length results \<le> 10))"
proof -
  let ?found = "fst (searchEmbeddings E q 20 w)"
  let ?w1 = "snd (searchEmbeddings E q 20 w)"
  let ?f = "no_filters\<lparr>search_f := Some q\<rparr>"
  let ?docs = "fst (getDocuments E ?f w)"
  have docs: "fst (getDocuments E ?f ?w1) = ?docs"
    by (rule getDocuments_rows) simp
  have runs: "\<exists>f. SelectDocuments f \<in> set (new_calls w (snd (search_route E (Some q) w)))"
    and resp: "\<exists>results. fst (search_route E (Some q) w) = results_response results
                 \<and> length results = min 10 (length ?docs) \<and> length results \<le> 10"
    if empty: "?found = []"
  proof -
    have "calls (snd (search_route E (Some q) w)) =
            calls ?w1 @ SelectDocuments ?f # map (\<lambda>d. SelectPages (id_d d)) (take 10 ?docs)"
      using q empty
      by (simp add: search_route_def split_def Let_def docs
          promise_all_calls [where g = "\<lambda>d. SelectPages (id_d d)", OF fallbackResult_calls])
    then have "new_calls w (snd (search_route E (Some q) w)) =
            [SelectEmbeddingsFts q 20, SelectEmbeddingsIlike q 20, SelectDocuments ?f]
              @ map (\<lambda>d. SelectPages (id_d d)) (take 10 ?docs)"
      using empty by (simp add: searchEmbeddings_calls searchEmbeddings_def Let_def
          split: if_splits)
    then show "\<exists>f. SelectDocuments f \<in> set (new_calls w (snd (search_route E (Some q) w)))"
      by auto
    have "fst (search_route E (Some q) w) =
            results_response (fst (promise_all fallbackResult (take 10 ?docs)
              (snd (getDocuments E ?f ?w1))))"
      using q empty by (simp add: search_route_def split_def Let_def docs)
    moreover have "length (fst (promise_all fallbackResult (take 10 ?docs)
              (snd (getDocuments E ?f ?w1)))) = min 10 (length ?docs)"
      by (simp add: promise_all_length min.commute)
    ultimately show "\<exists>results. fst (search_route E (Some q) w) = results_response results
                 \<and> length results = min 10 (length ?docs) \<and> length results \<le> 10"
      by (metis min.cobounded1)
  qed
  have not_runs: "\<not> (\<exists>f. SelectDocuments f \<in> set (new_calls w (snd (search_route E (Some q) w))))"
    if nonempty: "?found \<noteq> []"
  proof -
    have "calls (snd (search_route E (Some q) w)) =
            calls ?w1 @ map (\<lambda>e. SelectDocument (documentId_e e)) ?found"
      using q nonempty
      by (simp add: search_route_def split_def Let_def
          promise_all_calls [where g = "\<lambda>e. SelectDocument (documentId_e e)", OF searchResult_calls])
    then have "new_calls w (snd (search_route E (Some q) w)) =
            (if take 20 (filter (\<lambda>e. tsmatch E (chunkText e) q) (embeddings w)) = []
             then [SelectEmbeddingsFts q 20, SelectEmbeddingsIlike q 20]
             else [SelectEmbeddingsFts q 20])
              @ map (\<lambda>e. SelectDocument (documentId_e e)) ?found"
      by (simp add: searchEmbeddings_calls)
    then show ?thesis
      by auto
  qed
  have a: "(\<exists>f. SelectDocuments f \<in> set (new_calls w (snd (search_route E (Some q) w))))
            \<longleftrightarrow> ?found = []"
    using runs not_runs by blast
  have b: "?found = [] \<longleftrightarrow>
              (\<forall>e\<in>set (embeddings w).
                 \<not> tsmatch E (chunkText e) q \<and> \<not> ilike E (chunkText e) (like_pattern q))"
    by (rule searchEmbeddings_empty_iff) simp
  have c: "?found = [] \<longrightarrow>
              (\<exists>results. fst (search_route E (Some q) w) = results_response results
                 \<and> length results = min 10 (length ?docs) \<and> length results \<le> 10)"
    using resp by blast
  show ?thesis
    by (rule conjI [OF a conjI [OF b c]])
qed

theorem title_fallback_runs_witness:
  "fst (searchEmbeddings (example_env (Throws NonError) (Throws NonError)) (ascii ''Q3'') 20
          (processed_world (ascii ''cat'') 1)) = []
   \<and> new_calls (processed_world (ascii ''cat'') 1)
        (snd (search_route (example_env (Throws NonError) (Throws NonError)) (Some (ascii ''Q3''))
          (processed_world (ascii ''cat'') 1))) =
      [SelectEmbeddingsFts (ascii ''Q3'') 20, SelectEmbeddingsIlike (ascii ''Q3'') 20,
       SelectDocuments \<lparr>type_f = None, status_f = None, search_f = Some (ascii ''Q3'')\<rparr>,
       SelectPages 1]"
  using title_fallback_runs [of "ascii ''Q3''" "processed_world (ascii ''cat'') 1"
      "example_env (Throws NonError) (Throws NonError)"]
  by (simp add: route_defs eval_defs)

text \<open>
  Claim C5 as stated fails for the query \<open>ca\<close> on a store whose only chunk is \<open>cat\<close>:
  the full-text query has no row (no word of the chunk is \<open>ca\<close>), the \<^verbatim>\<open>ILIKE\<close>
  query of \<^verbatim>\<open>searchEmbeddings\<close> finds the chunk, and the route does not query the
  documents table.
\<close>

theorem title_fallback_counterexample:
  "\<not> tsmatch (example_env (Throws NonError) (Throws NonError)) (ascii ''cat'') (ascii ''ca'')
   \<and> map chunkText (embeddings (processed_world (ascii ''cat'') 1)) = [ascii ''cat'']
   \<and> new_calls (processed_world (ascii ''cat'') 1)
        (snd (search_route (example_env (Throws NonError) (Throws NonError)) (Some (ascii ''ca''))
          (processed_world (ascii ''cat'') 1))) =
      [SelectEmbeddingsFts (ascii ''ca'') 20, SelectEmbeddingsIlike (ascii ''ca'') 20,
       SelectDocument 1]"
  by (simp add: route_defs eval_defs)

section \<open>Corpus-wide ask\<close>

text \<open>
  Claim C8. When no document is stored (and so, every chunk referencing a stored
  document, no chunk), a corpus-wide ask with a question answers 200 with the fixed
  message, \<open>insufficientEvidence\<close> true and an empty citation list; its only calls are the
  two chunk queries and the listing of the documents, so the generation service is not
  called.
\<close>

theorem no_documents_no_generation:
  assumes q: "truthy q"
    and none: "documents w = []"
    and refs: "references_ok w"
  shows "fst (qa_ask E (Some q) w) = no_documents_response
         \<and> (\<exists>body. fst (qa_ask E (Some q) w) = Response 200 (Some body)
               \<and> property body ''insufficientEvidence'' = Some (JBool True)
               \<and> property body ''citations'' = Some (JArr []))
         \<and> generated (new_calls w (snd (qa_ask E (Some q) w))) = []
         \<and> new_calls w (snd (qa_ask E (Some q) w)) =
             [SelectEmbeddingsFts q 10, SelectEmbeddingsIlike q 10, SelectDocuments no_filters]"
proof -
  from none refs have emb: "embeddings w = []"
    by (cases "embeddings w") (auto simp: references_ok_def)
  have found: "fst (searchEmbeddings E q 10 w) = []"
    by (simp add: searchEmbeddings_def Let_def emb)
  have docs: "fst (getDocuments E no_filters (snd (searchEmbeddings E q 10 w))) = []"
    by (simp add: getDocuments_def Let_def none latest_first_def)
  have r: "fst (qa_ask E (Some q) w) = no_documents_response"
    using q by (simp add: qa_ask_def split_def Let_def found docs)
  have c: "calls (snd (qa_ask E (Some q) w)) =
             calls w @ [SelectEmbeddingsFts q 10, SelectEmbeddingsIlike q 10,
                        SelectDocuments no_filters]"
    using q by (simp add: qa_ask_def split_def Let_def found docs searchEmbeddings_calls emb)
  have n: "new_calls w (snd (qa_ask E (Some q) w)) =
             [SelectEmbeddingsFts q 10, SelectEmbeddingsIlike q 10, SelectDocuments no_filters]"
    using c by simp
  have body: "property (obj [(''answer'', a), (''citations'', JArr []),
                 (''insufficientEvidence'', JBool True)]) ''insufficientEvidence'' = Some (JBool True)
            \<and> property (obj [(''answer'', a), (''citations'', JArr []),
                 (''insufficientEvidence'', JBool True)]) ''citations'' = Some (JArr [])" for a
    by (simp add: obj_def ascii_def)
  from r n body show ?thesis
    by (simp add: no_documents_response_def json_response_def)
qed

theorem no_documents_no_generation_witness:
  "fst (qa_ask (example_env (Throws NonError) (Returns (TextBlock (ascii ''unused''))))
          (Some (ascii ''dog'')) (example_world [])) = no_documents_response
   \<and> calls (snd (qa_ask (example_env (Throws NonError) (Returns (TextBlock (ascii ''unused''))))
          (Some (ascii ''dog'')) (example_world []))) =
      [SelectEmbeddingsFts (ascii ''dog'') 10, SelectEmbeddingsIlike (ascii ''dog'') 10,
       SelectDocuments no_filters]"
  using no_documents_no_generation [of "ascii ''dog''" "example_world []"
      "example_env (Throws NonError) (Returns (TextBlock (ascii ''unused'')))"]
  by (simp add: example_world_def references_ok_def truthy_def ascii_def new_calls_def)

text \<open>
  Claim C9. When the chunk search of a corpus-wide ask returns nothing, the context is
  built from the first 5 documents of the listing of all documents ordered by upload date,
  latest first: the listing is a permutation of the stored documents, no document left
  out of the 5 was uploaded later than one of them, every item of the context belongs to
  one of them, and the only request to the generation service, made when there is an
  item at all, carries the context built from these items.
\<close>

theorem fallback_uses_latest_five:
  assumes q: "truthy q"
    and empty: "fst (searchEmbeddings E q 10 w) = []"
  shows "let allDocs = latest_first (documents w);
             used = take 5 allDocs;
             allContent = fst (collectContent used w)
         in generated (new_calls w (snd (qa_ask E (Some q) w))) =
              (if allContent = [] then []
               else [CorpusAskPrompt
                       (slice (join separator
                                 (map (source_block False) (enumerate 0 allContent)))
                          0 50000) q])
            \<and> set (map documentId_c allContent) \<subseteq> set (map id_d used)
            \<and> length used \<le> 5
            \<and> mset allDocs = mset (documents w)
            \<and> sorted_wrt (\<lambda>a b. uploadDate b \<le> uploadDate a) allDocs
            \<and> (\<forall>d\<in>set used. \<forall>d'\<in>set (drop 5 allDocs). uploadDate d' \<le> uploadDate d)"
proof -
  let ?all = "latest_first (documents w)"
  let ?used = "take 5 ?all"
  let ?content = "fst (collectContent ?used w)"
  let ?w1 = "snd (searchEmbeddings E q 10 w)"
  let ?w2 = "snd (getDocuments E no_filters ?w1)"
  let ?w3 = "snd (collectContent ?used ?w2)"
  let ?ctx = "slice (join separator (map (source_block False) (enumerate 0 ?content))) 0 50000"
  have docs: "fst (getDocuments E no_filters ?w1) = ?all"
    by (simp add: getDocuments_all)
  have content: "fst (collectContent ?used ?w2) = ?content"
    by (rule collectContent_rows) simp
  have c2: "calls ?w2 = calls w @ [SelectEmbeddingsFts q 10, SelectEmbeddingsIlike q 10,
                                    SelectDocuments no_filters]"
    using empty by (simp add: searchEmbeddings_calls searchEmbeddings_def Let_def split: if_splits)
  have c3: "calls ?w3 = calls ?w2 @ map (\<lambda>d. SelectPages (id_d d)) ?used"
    by (rule collectContent_calls)
  have gen: "generated (new_calls w (snd (qa_ask E (Some q) w))) =
               (if ?content = [] then [] else [CorpusAskPrompt ?ctx q])"
  proof (cases "?all = []")
    case True
    then have "snd (qa_ask E (Some q) w) = ?w2"
      using q empty by (simp add: qa_ask_def split_def Let_def docs)
    then have "new_calls w (snd (qa_ask E (Some q) w)) =
                 [SelectEmbeddingsFts q 10, SelectEmbeddingsIlike q 10,
                  SelectDocuments no_filters]"
      using c2 by simp
    with True show ?thesis by simp
  next
    case False
    show ?thesis
    proof (cases "?content = []")
      case True
      then have "snd (qa_ask E (Some q) w) = ?w3"
        using q empty False by (simp add: qa_ask_def split_def Let_def docs content)
      then have "new_calls w (snd (qa_ask E (Some q) w)) =
                 [SelectEmbeddingsFts q 10, SelectEmbeddingsIlike q 10,
                  SelectDocuments no_filters] @ map (\<lambda>d. SelectPages (id_d d)) ?used"
        using c2 c3 by simp
      with True show ?thesis by simp
    next
      case nonempty: False
      have "snd (qa_ask E (Some q) w) =
              snd (answerFrom E ?ctx q (map documentId_c ?content) ?w3)"
        using q empty False nonempty
        by (simp add: qa_ask_def split_def Let_def docs content)
      moreover from answerFrom_calls [of E ?ctx q "map documentId_c ?content" ?w3]
      obtain cs where
        "calls (snd (answerFrom E ?ctx q (map documentId_c ?content) ?w3)) =
           calls ?w3 @ Generate (CorpusAskPrompt ?ctx q) # cs"
        and "generated cs = []" by blast
      ultimately have "new_calls w (snd (qa_ask E (Some q) w)) =
                 [SelectEmbeddingsFts q 10, SelectEmbeddingsIlike q 10,
                  SelectDocuments no_filters] @ map (\<lambda>d. SelectPages (id_d d)) ?used
                 @ Generate (CorpusAskPrompt ?ctx q) # cs"
        using c2 c3 by simp
      with nonempty \<open>generated cs = []\<close> show ?thesis by simp
    qed
  qed
  have order: "\<forall>d\<in>set ?used. \<forall>d'\<in>set (drop 5 ?all). uploadDate d' \<le> uploadDate d"
    by (rule sorted_take_drop [OF latest_first_sorted])
  from gen collectContent_ids [of ?used w] latest_first_mset [of "documents w"]
    latest_first_sorted [of "documents w"] order
  show ?thesis
    unfolding Let_def by simp
qed

theorem fallback_uses_latest_five_witness:
  "map id_d (take 5 (latest_first (documents dated_world))) = [6, 5, 4, 3, 2]
   \<and> generated (new_calls dated_world
        (snd (qa_ask (example_env (Throws NonError)
                        (Returns (TextBlock (ascii ''The answer is unknown.''))))
               (Some (ascii ''dog'')) dated_world))) =
      [CorpusAskPrompt (ascii ''[Source 1: Q3 Report, Page 1]'' @ [0x0A] @ ascii ''new'')
         (ascii ''dog'')]"
  using fallback_uses_latest_five [of "ascii ''dog''"
      "example_env (Throws NonError) (Returns (TextBlock (ascii ''The answer is unknown.'')))"
      dated_world]
  by (simp add: dated_world_def route_defs eval_defs show_nat.simps)

section \<open>A reply of the generation service that is not JSON\<close>

text \<open>
  Claim C1 does not hold of the code. The raw text becomes the answer only when the reply
  holds no opening brace followed by a closing brace. When it holds such a pair and the
  text from the first opening brace to the last closing brace is not valid JSON,
  \<^verbatim>\<open>JSON.parse\<close> throws inside the handler's \<^verbatim>\<open>try\<close> block, and both ask routes
  answer 500 whenever they reach the generation service: the corpus-wide ask when the
  chunk search finds a chunk (and, on its fallback branch, unless it answers early with
  one of its two fixed messages), the document-scoped ask when the document has a page
  with text.
\<close>

theorem unparseable_braces_answer_500:
  assumes q: "truthy q"
    and reply: "\<forall>p. messages_create E p = Returns (TextBlock t)"
    and braces: "jsonMatch t = Some m"
    and bad: "JSON_parse E m = Throws e"
  shows "(fst (searchEmbeddings E q 10 w) \<noteq> [] \<longrightarrow>
            fst (qa_ask E (Some q) w) = error_response 500 ''Failed to answer question'')
         \<and> (fst (qa_ask E (Some q) w) = error_response 500 ''Failed to answer question''
              \<or> fst (qa_ask E (Some q) w) = no_documents_response
              \<or> fst (qa_ask E (Some q) w) = no_text_response)
         \<and> (\<forall>doc. find (\<lambda>d. id_d d = i) (documents w) = Some doc
                \<longrightarrow> filter has_text (fst (getDocumentPages i w)) \<noteq> []
                \<longrightarrow> fst (document_ask E i (Some q) w) =
                      error_response 500 ''Failed to answer question'')"
proof -
  note err = answerFrom_throws [OF reply braces bad]
  have a: "fst (qa_ask E (Some q) w) = error_response 500 ''Failed to answer question''"
    if "fst (searchEmbeddings E q 10 w) \<noteq> []"
    using q that by (simp add: qa_ask_def split_def Let_def err)
  have b: "fst (qa_ask E (Some q) w) = error_response 500 ''Failed to answer question''
              \<or> fst (qa_ask E (Some q) w) = no_documents_response
              \<or> fst (qa_ask E (Some q) w) = no_text_response"
    using q by (simp add: qa_ask_def split_def Let_def err)
  have pages: "fst (getDocumentPages i (record_call (SelectDocument i) w)) =
                 fst (getDocumentPages i w)"
    by (simp add: getDocumentPages_def)
  have c: "fst (document_ask E i (Some q) w) = error_response 500 ''Failed to answer question''"
    if "find (\<lambda>d. id_d d = i) (documents w) = Some doc"
      and "filter has_text (fst (getDocumentPages i w)) \<noteq> []" for doc
    using q that reply braces bad
    by (simp add: document_ask_def split_def Let_def pages)
  from a b c show ?thesis by blast
qed

theorem unparseable_braces_answer_500_witness:
  "jsonMatch (ascii ''The answer is {unknown}.'') = Some (ascii ''{unknown}'')
   \<and> fst (qa_ask (example_env (Throws NonError)
                   (Returns (TextBlock (ascii ''The answer is {unknown}.''))))
            (Some (ascii ''cat'')) (processed_world (ascii ''cat'') 1)) =
       error_response 500 ''Failed to answer question''
   \<and> fst (document_ask (example_env (Throws NonError)
                   (Returns (TextBlock (ascii ''The answer is {unknown}.''))))
            1 (Some (ascii ''cat'')) (processed_world (ascii ''cat'') 1)) =
       error_response 500 ''Failed to answer question''"
  using unparseable_braces_answer_500 [of "ascii ''cat''"
      "example_env (Throws NonError) (Returns (TextBlock (ascii ''The answer is {unknown}.'')))"
      "ascii ''The answer is {unknown}.''" "ascii ''{unknown}''"
      "Error (ascii ''Unexpected token'')" "processed_world (ascii ''cat'') 1" 1]
  by (simp add: route_defs eval_defs)

end
